theory Spec2Isabelle
  imports Main
begin

section \<open>DeCode: the Python-like trace builder of \<^verbatim>\<open>src/App.jsx\<close>\<close>

text \<open>
  The file \<^verbatim>\<open>src/App.jsx\<close> holds two versions of the component
  \<^verbatim>\<open>PythonCodeVisualizer\<close>. The first one (lines 1 to 1988) has
  \<^verbatim>\<open>safeEval\<close>, \<^verbatim>\<open>parseListComprehension\<close>, \<^verbatim>\<open>handleFunctionCall\<close>,
  \<^verbatim>\<open>processLine\<close> and \<^verbatim>\<open>parseCode\<close>; the second one (from line 1988 on) has
  its own \<^verbatim>\<open>safeEval\<close> and a \<^verbatim>\<open>parseCode\<close> with a nested \<^verbatim>\<open>processLine\<close>
  that knows dictionary methods. Definitions of the second version carry the suffix \<open>2\<close>.

  Modelling decisions, once for the whole theory:
  \<^item> JavaScript strings are \<open>string\<close>; only ASCII white space is white space.
  \<^item> JavaScript values are the datatype \<open>val\<close>; numbers are integers (\<open>int\<close>), so
    fractions, \<^verbatim>\<open>NaN\<close> and the infinities have no representation.
  \<^item> Values are immutable trees. An in-place update of an array (\<^verbatim>\<open>list.push\<close>) is
    the rebinding of the variable that holds it, so two names that share one array,
    cyclic arrays and a loop body that grows the array it iterates are not represented.
  \<^item> A \<^verbatim>\<open>throw\<close> is the left injection of \<open>error + 'a\<close>; a \<^verbatim>\<open>try/catch\<close> is a
    case distinction on it.
  \<^item> What the code asks from the JavaScript runtime (\<^verbatim>\<open>new Function\<close>,
    \<^verbatim>\<open>JSON.parse\<close>, \<^verbatim>\<open>JSON.stringify\<close>, number parsing, arithmetic on
    arbitrary values) is a parameter: the record \<open>host\<close>. General theorems hold for
    every host; theorems about one program use the host \<open>js_host\<close>, an evaluator for a
    small fragment of JavaScript expressions.
\<close>

subsection \<open>Strings\<close>

definition is_digit :: "char \<Rightarrow> bool" where
  "is_digit c = (48 \<le> (of_char c :: nat) \<and> (of_char c :: nat) \<le> 57)"

definition is_alpha :: "char \<Rightarrow> bool" where
  "is_alpha c = ((97 \<le> (of_char c :: nat) \<and> (of_char c :: nat) \<le> 122)
     \<or> (65 \<le> (of_char c :: nat) \<and> (of_char c :: nat) \<le> 90))"

text \<open>The class \<^verbatim>\<open>\w\<close>.\<close>

definition is_word :: "char \<Rightarrow> bool" where
  "is_word c = (is_alpha c \<or> is_digit c \<or> c = CHR ''_'')"

text \<open>The class \<^verbatim>\<open>\s\<close>, which is also what \<^verbatim>\<open>trim\<close> removes.\<close>

definition is_space :: "char \<Rightarrow> bool" where
  "is_space c = (c = CHR '' '' \<or> c = CHR 0x09 \<or> c = CHR 0x0A \<or> c = CHR 0x0B
     \<or> c = CHR 0x0C \<or> c = CHR 0x0D)"

definition trimStart :: "string \<Rightarrow> string" where
  "trimStart s = dropWhile is_space s"

definition trim :: "string \<Rightarrow> string" where
  "trim s = rev (dropWhile is_space (rev (dropWhile is_space s)))"

definition startsWith :: "string \<Rightarrow> string \<Rightarrow> bool" where
  "startsWith s p = (take (length p) s = p)"

definition endsWith :: "string \<Rightarrow> string \<Rightarrow> bool" where
  "endsWith s p = (length p \<le> length s \<and> drop (length s - length p) s = p)"

fun str_includes :: "string \<Rightarrow> string \<Rightarrow> bool" where
  "str_includes [] p = (p = [])"
| "str_includes (c # cs) p = (startsWith (c # cs) p \<or> str_includes cs p)"

text \<open>\<^verbatim>\<open>s.indexOf(p)\<close>, with \<open>None\<close> for \<^verbatim>\<open>-1\<close>.\<close>

fun str_indexOf :: "string \<Rightarrow> string \<Rightarrow> nat option" where
  "str_indexOf [] p = (if p = [] then Some 0 else None)"
| "str_indexOf (c # cs) p =
     (if startsWith (c # cs) p then Some 0 else map_option Suc (str_indexOf cs p))"

text \<open>\<^verbatim>\<open>s.split(d)\<close> for a separator of one character.\<close>

fun splitOn :: "char \<Rightarrow> string \<Rightarrow> string list" where
  "splitOn d [] = [[]]"
| "splitOn d (c # cs) =
     (if c = d then [] # splitOn d cs
      else (case splitOn d cs of [] \<Rightarrow> [[c]] | w # ws \<Rightarrow> (c # w) # ws))"

text \<open>\<^verbatim>\<open>xs.join(d)\<close>.\<close>

fun joinWith :: "string \<Rightarrow> string list \<Rightarrow> string" where
  "joinWith d [] = []"
| "joinWith d [x] = x"
| "joinWith d (x # y # ys) = x @ d @ joinWith d (y # ys)"

text \<open>\<^verbatim>\<open>s.slice(1, -1)\<close> and \<^verbatim>\<open>s.slice(n, -1)\<close>.\<close>

definition slice_to_last :: "nat \<Rightarrow> string \<Rightarrow> string" where
  "slice_to_last n s = drop n (take (length s - 1) s)"

text \<open>The decimal form of an integer, which is \<^verbatim>\<open>String(n)\<close> on integers.\<close>

definition digit_char :: "nat \<Rightarrow> char" where
  "digit_char n = ''0123456789'' ! n"

function digits_of :: "nat \<Rightarrow> string" where
  "digits_of n = (if n < 10 then [digit_char n] else digits_of (n div 10) @ [digit_char (n mod 10)])"
  by pat_completeness auto
termination
  by (relation "measure (\<lambda>n. n)") auto

declare digits_of.simps [simp del]

definition show_int :: "int \<Rightarrow> string" where
  "show_int i = (if i < 0 then CHR ''-'' # digits_of (nat (- i)) else digits_of (nat i))"

subsection \<open>Regular expressions\<close>

text \<open>
  The code classifies lines and rewrites expressions with regular expressions. They are
  kept as syntax trees, one constructor for each construct the source uses, and matched
  by a backtracking matcher in the order ECMAScript prescribes: alternatives from left to
  right, a greedy star longest first, a lazy star shortest first, and an iteration of a
  star must consume input.
\<close>

datatype cls = Lit char | Word | Digit | Space | Dot | OneOf "char list" | NoneOf "char list"

fun cls_ok :: "cls \<Rightarrow> char \<Rightarrow> bool" where
  "cls_ok (Lit a) c = (c = a)"
| "cls_ok Word c = is_word c"
| "cls_ok Digit c = is_digit c"
| "cls_ok Space c = is_space c"
| "cls_ok Dot c = (c \<noteq> CHR 0x0A \<and> c \<noteq> CHR 0x0D)"
| "cls_ok (OneOf cs) c = (c \<in> set cs)"
| "cls_ok (NoneOf cs) c = (c \<notin> set cs)"

datatype rx = One cls | Eps | Seq rx rx | Alt rx rx | Star rx | Lazy rx | Grp nat rx
  | Bol | Eol | WordB

text \<open>
  The matcher works on a stack of what is still to be matched: a regular expression, the
  check that an iteration has consumed input (\<open>Chk\<close>), or the end of a capture group
  (\<open>Cap\<close>). The text already read is kept reversed, for \<^verbatim>\<open>\b\<close> and for the captures.
\<close>

datatype frame = R rx | Chk nat | Cap nat nat

type_synonym caps = "(nat \<times> string) list"

fun rx_weight :: "rx \<Rightarrow> nat" where
  "rx_weight (Seq a b) = Suc (rx_weight a + rx_weight b)"
| "rx_weight (Alt a b) = Suc (rx_weight a + rx_weight b)"
| "rx_weight (Star a) = Suc (Suc (rx_weight a))"
| "rx_weight (Lazy a) = Suc (Suc (rx_weight a))"
| "rx_weight (Grp n a) = Suc (Suc (rx_weight a))"
| "rx_weight _ = 1"

fun stack_weight :: "frame list \<Rightarrow> nat \<Rightarrow> nat" where
  "stack_weight [] l = 0"
| "stack_weight (R a # k) l = rx_weight a + stack_weight k l"
| "stack_weight (Chk n # k) l = Suc (if l < n then stack_weight k l else 0)"
| "stack_weight (Cap n m # k) l = Suc (stack_weight k l)"

definition at_wordb :: "string \<Rightarrow> string \<Rightarrow> bool" where
  "at_wordb p r = ((case p of [] \<Rightarrow> False | c # _ \<Rightarrow> is_word c)
     \<noteq> (case r of [] \<Rightarrow> False | c # _ \<Rightarrow> is_word c))"

function (sequential) rx_run ::
  "frame list \<Rightarrow> string \<Rightarrow> string \<Rightarrow> caps \<Rightarrow> (string \<times> string \<times> caps) option" where
  "rx_run [] p r c = Some (p, r, c)"
| "rx_run (R (One cl) # k) p [] c = None"
| "rx_run (R (One cl) # k) p (x # xs) c = (if cls_ok cl x then rx_run k (x # p) xs c else None)"
| "rx_run (R Eps # k) p r c = rx_run k p r c"
| "rx_run (R (Seq a b) # k) p r c = rx_run (R a # R b # k) p r c"
| "rx_run (R (Alt a b) # k) p r c =
     (case rx_run (R a # k) p r c of Some m \<Rightarrow> Some m | None \<Rightarrow> rx_run (R b # k) p r c)"
| "rx_run (R (Star a) # k) p r c =
     (case rx_run (R a # Chk (length r) # R (Star a) # k) p r c of
        Some m \<Rightarrow> Some m
      | None \<Rightarrow> rx_run k p r c)"
| "rx_run (R (Lazy a) # k) p r c =
     (case rx_run k p r c of
        Some m \<Rightarrow> Some m
      | None \<Rightarrow> rx_run (R a # Chk (length r) # R (Lazy a) # k) p r c)"
| "rx_run (R (Grp n a) # k) p r c = rx_run (R a # Cap n (length p) # k) p r c"
| "rx_run (R Bol # k) p r c = (if p = [] then rx_run k p r c else None)"
| "rx_run (R Eol # k) p r c = (if r = [] then rx_run k p r c else None)"
| "rx_run (R WordB # k) p r c = (if at_wordb p r then rx_run k p r c else None)"
| "rx_run (Chk n # k) p r c = (if length r < n then rx_run k p r c else None)"
| "rx_run (Cap n m # k) p r c = rx_run k p r ((n, rev (take (length p - m) p)) # c)"
  by pat_completeness auto
termination
  by (relation "measures [\<lambda>(k, p, r, c). length r, \<lambda>(k, p, r, c). stack_weight k (length r)]")
    auto

fun seqs :: "rx list \<Rightarrow> rx" where
  "seqs [] = Eps"
| "seqs [r] = r"
| "seqs (r # rs) = Seq r (seqs rs)"

fun alts :: "rx list \<Rightarrow> rx" where
  "alts [] = Eps"
| "alts [r] = r"
| "alts (r # rs) = Alt r (alts rs)"

definition lits :: "string \<Rightarrow> rx" where
  "lits s = seqs (map (\<lambda>c. One (Lit c)) s)"

definition rplus :: "rx \<Rightarrow> rx" where
  "rplus r = Seq r (Star r)"

definition ropt :: "rx \<Rightarrow> rx" where
  "ropt r = Alt r Eps"

text \<open>
  \<^verbatim>\<open>s.match(r)\<close> without the flag \<^verbatim>\<open>g\<close>: the leftmost match, as its capture groups.
  \<open>rx_search r p s\<close> tries every start position of \<open>s\<close> in turn; \<open>p\<close> is the reversed
  text before \<open>s\<close>. The result holds the reversed text before the match, the reversed
  text up to its end, the rest and the captures.
\<close>

fun rx_search :: "rx \<Rightarrow> string \<Rightarrow> string \<Rightarrow> (string \<times> string \<times> string \<times> caps) option" where
  "rx_search r p [] = (case rx_run [R r] p [] [] of Some m \<Rightarrow> Some (p, m) | None \<Rightarrow> None)"
| "rx_search r p (x # xs) =
     (case rx_run [R r] p (x # xs) [] of Some m \<Rightarrow> Some (p, m) | None \<Rightarrow> rx_search r (x # p) xs)"

definition rx_match :: "rx \<Rightarrow> string \<Rightarrow> caps option" where
  "rx_match r s = (case rx_search r [] s of Some (b, e, rest, c) \<Rightarrow> Some c | None \<Rightarrow> None)"

definition rx_test :: "rx \<Rightarrow> string \<Rightarrow> bool" where
  "rx_test r s = (rx_match r s \<noteq> None)"

text \<open>A capture group; \<open>None\<close> is a group that took no part in the match.\<close>

definition cap :: "caps \<Rightarrow> nat \<Rightarrow> string option" where
  "cap c n = map_of c n"

definition capS :: "caps \<Rightarrow> nat \<Rightarrow> string" where
  "capS c n = (case map_of c n of Some s \<Rightarrow> s | None \<Rightarrow> [])"

text \<open>
  \<^verbatim>\<open>s.replace(r, t)\<close> with the flag \<^verbatim>\<open>g\<close>: every match, from left to right and without
  overlap, is replaced by \<open>f\<close> of its captures; after an empty match the search moves on
  by one character.
\<close>

function rx_replace :: "rx \<Rightarrow> (caps \<Rightarrow> string) \<Rightarrow> string \<Rightarrow> string \<Rightarrow> string" where
  "rx_replace r f p s =
     (case rx_run [R r] p s [] of
        Some (p', s', c) \<Rightarrow>
          (if length s' < length s then f c @ rx_replace r f p' s'
           else (case s of [] \<Rightarrow> f c | x # xs \<Rightarrow> f c @ x # rx_replace r f (x # p) xs))
      | None \<Rightarrow> (case s of [] \<Rightarrow> [] | x # xs \<Rightarrow> x # rx_replace r f (x # p) xs))"
  by pat_completeness auto
termination
  by (relation "measure (\<lambda>(r, f, p, s). length s)") auto

declare rx_replace.simps [simp del]

definition replaceAll :: "rx \<Rightarrow> (caps \<Rightarrow> string) \<Rightarrow> string \<Rightarrow> string" where
  "replaceAll r f s = rx_replace r f [] s"

subsection \<open>Values, steps and the host\<close>

definition sq :: string where
  "sq = [CHR 0x27]"

definition dq :: string where
  "dq = [CHR 0x22]"

text \<open>An element of \<^verbatim>\<open>lines\<close> in \<^verbatim>\<open>parseCode\<close>.\<close>

record lineData =
  content :: string
  originalIndex :: nat
  trimmed :: string
  indent :: nat

text \<open>
  \<open>VDict\<close> is a plain object with its own properties in insertion order. \<open>VFun\<close> is
  the object \<^verbatim>\<open>{name, params, body, closure, isFunction: true}\<close> that a \<^verbatim>\<open>def\<close>
  creates; the test \<^verbatim>\<open>func.isFunction\<close> is the test for this constructor.
\<close>

datatype val = VUndef | VNull | VBool bool | VNum int | VStr string | VList "val list"
  | VDict "(string \<times> val) list"
  | VFun string "string list" "lineData list" "(string \<times> val) list"

type_synonym env = "(string \<times> val) list"

datatype error = Error string

fun message :: "error \<Rightarrow> string" where
  "message (Error m) = m"

text \<open>\<^verbatim>\<open>vars[k]\<close>, \<^verbatim>\<open>k in vars\<close> and \<^verbatim>\<open>vars[k] = v\<close> on own properties.\<close>

definition env_get :: "env \<Rightarrow> string \<Rightarrow> val" where
  "env_get vars k = (case map_of vars k of Some v \<Rightarrow> v | None \<Rightarrow> VUndef)"

definition env_has :: "env \<Rightarrow> string \<Rightarrow> bool" where
  "env_has vars k = (map_of vars k \<noteq> None)"

fun env_set :: "env \<Rightarrow> string \<Rightarrow> val \<Rightarrow> env" where
  "env_set [] k v = [(k, v)]"
| "env_set ((k', v') # kvs) k v = (if k' = k then (k, v) # kvs else (k', v') # env_set kvs k v)"

fun env_delete :: "env \<Rightarrow> string \<Rightarrow> env" where
  "env_delete [] k = []"
| "env_delete ((k', v') # kvs) k = (if k' = k then kvs else (k', v') # env_delete kvs k)"

fun is_undef :: "val \<Rightarrow> bool" where
  "is_undef VUndef = True"
| "is_undef _ = False"

fun isArray :: "val \<Rightarrow> bool" where
  "isArray (VList xs) = True"
| "isArray _ = False"

fun isString :: "val \<Rightarrow> bool" where
  "isString (VStr s) = True"
| "isString _ = False"

fun isFunction :: "val \<Rightarrow> bool" where
  "isFunction (VFun n ps b cl) = True"
| "isFunction _ = False"

fun typeof :: "val \<Rightarrow> string" where
  "typeof VUndef = ''undefined''"
| "typeof VNull = ''object''"
| "typeof (VBool b) = ''boolean''"
| "typeof (VNum n) = ''number''"
| "typeof (VStr s) = ''string''"
| "typeof (VList xs) = ''object''"
| "typeof (VDict kvs) = ''object''"
| "typeof (VFun n ps b cl) = ''object''"

text \<open>\<^verbatim>\<open>Boolean(v)\<close>.\<close>

fun truthy :: "val \<Rightarrow> bool" where
  "truthy VUndef = False"
| "truthy VNull = False"
| "truthy (VBool b) = b"
| "truthy (VNum n) = (n \<noteq> 0)"
| "truthy (VStr s) = (s \<noteq> [])"
| "truthy _ = True"

text \<open>
  \<^verbatim>\<open>JSON.parse(JSON.stringify(v))\<close>, the copy every step takes of the variables: a
  property whose value is \<^verbatim>\<open>undefined\<close> is dropped, \<^verbatim>\<open>undefined\<close> in an array
  becomes \<^verbatim>\<open>null\<close>.
\<close>

fun json_copy :: "val \<Rightarrow> val" where
  "json_copy (VList xs) = VList (map (\<lambda>x. if is_undef x then VNull else json_copy x) xs)"
| "json_copy (VDict kvs) =
     VDict (map (\<lambda>kv. (fst kv, json_copy (snd kv))) (filter (\<lambda>kv. \<not> is_undef (snd kv)) kvs))"
| "json_copy (VFun n ps b cl) =
     VFun n ps b (map (\<lambda>kv. (fst kv, json_copy (snd kv))) (filter (\<lambda>kv. \<not> is_undef (snd kv)) cl))"
| "json_copy v = v"

definition snapshot :: "env \<Rightarrow> env" where
  "snapshot vars = map (\<lambda>kv. (fst kv, json_copy (snd kv))) (filter (\<lambda>kv. \<not> is_undef (snd kv)) vars)"

datatype action = Assign | Reassign | AugmentedAssign | ListOperation | DictOperation | Print
  | FunctionDefinition | FunctionCall | ForLoopStart | ForLoopIteration | ForLoopEnd
  | IfStatement | WhileLoopStart | Execute | ErrorStep
  | ControlStructureStart | ControlStructureEnd

fun action_name :: "action \<Rightarrow> string" where
  "action_name Assign = ''assign''"
| "action_name Reassign = ''reassign''"
| "action_name AugmentedAssign = ''augmented_assign''"
| "action_name ListOperation = ''list_operation''"
| "action_name DictOperation = ''dict_operation''"
| "action_name Print = ''print''"
| "action_name FunctionDefinition = ''function_definition''"
| "action_name FunctionCall = ''function_call''"
| "action_name ForLoopStart = ''for_loop_start''"
| "action_name ForLoopIteration = ''for_loop_iteration''"
| "action_name ForLoopEnd = ''for_loop_end''"
| "action_name IfStatement = ''if_statement''"
| "action_name WhileLoopStart = ''while_loop_start''"
| "action_name Execute = ''execute''"
| "action_name ErrorStep = ''error''"
| "action_name ControlStructureStart = ''control_structure_start''"
| "action_name ControlStructureEnd = ''control_structure_end''"

text \<open>
  A step of the trace. The fields every step has are fields of the record; the fields
  that depend on the action (\<^verbatim>\<open>variable\<close>, \<^verbatim>\<open>value\<close>, \<^verbatim>\<open>iterable\<close>,
  \<^verbatim>\<open>totalIterations\<close>, \<^verbatim>\<open>error\<close>, ...) are the association list \<open>info\<close>, under
  the names of the source. The field \<^verbatim>\<open>output\<close> is \<open>outputLines\<close>.
\<close>

record step =
  line :: nat
  action :: action
  info :: "(string \<times> val) list"
  variables :: env
  outputLines :: "string list"

definition mk_step :: "nat \<Rightarrow> action \<Rightarrow> (string \<times> val) list \<Rightarrow> env \<Rightarrow> string list \<Rightarrow> step" where
  "mk_step l a i vars out =
     \<lparr>line = l, action = a, info = i, variables = snapshot vars, outputLines = out\<rparr>"

text \<open>
  The services of the JavaScript runtime. \<open>evalFunction h body vars\<close> is
  \<^verbatim>\<open>new Function(...Object.keys(allVariables), `return ${body};`)(...Object.values(allVariables))\<close>
  where \<^verbatim>\<open>allVariables\<close> is \<open>vars\<close> overlaid with \<^verbatim>\<open>helperFunctions\<close>; it returns a
  value or throws. \<open>binop h\<close> is a binary operator of JavaScript on two values.
\<close>

record host =
  evalFunction :: "string \<Rightarrow> env \<Rightarrow> error + val"
  JSON_parse :: "string \<Rightarrow> error + val"
  JSON_stringify :: "val \<Rightarrow> string"
  isNaN :: "string \<Rightarrow> bool"
  parseFloat :: "string \<Rightarrow> val"
  parseInt :: "val \<Rightarrow> int option"
  binop :: "char \<Rightarrow> val \<Rightarrow> val \<Rightarrow> val"

subsection \<open>\<^verbatim>\<open>helperFunctions\<close>\<close>

text \<open>\<^verbatim>\<open>String(v)\<close>.\<close>

fun js_String :: "val \<Rightarrow> string" where
  "js_String VUndef = ''undefined''"
| "js_String VNull = ''null''"
| "js_String (VBool b) = (if b then ''true'' else ''false'')"
| "js_String (VNum n) = show_int n"
| "js_String (VStr s) = s"
| "js_String (VList xs) =
     joinWith '','' (map (\<lambda>x. case x of VUndef \<Rightarrow> [] | VNull \<Rightarrow> [] | _ \<Rightarrow> js_String x) xs)"
| "js_String (VDict kvs) = ''[object Object]''"
| "js_String (VFun n ps b cl) = ''[object Object]''"

fun helper_repr :: "host \<Rightarrow> val \<Rightarrow> string" where
  "helper_repr h VNull = ''None''"
| "helper_repr h (VBool b) = (if b then ''True'' else ''False'')"
| "helper_repr h (VStr s) = sq @ s @ sq"
| "helper_repr h (VNum n) = show_int n"
| "helper_repr h (VList xs) = ''['' @ joinWith '', '' (map (helper_repr h) xs) @ '']''"
| "helper_repr h (VDict kvs) = JSON_stringify h (VDict kvs)"
| "helper_repr h (VFun n ps b cl) = JSON_stringify h (VFun n ps b cl)"
| "helper_repr h VUndef = ''undefined''"

definition helper_print :: "host \<Rightarrow> val list \<Rightarrow> string" where
  "helper_print h args =
     joinWith '' '' (map (\<lambda>arg.
        if typeof arg = ''object'' then
          (case arg of
             VList xs \<Rightarrow> ''['' @ joinWith '', '' (map (helper_repr h) xs) @ '']''
           | VNull \<Rightarrow> ''None''
           | _ \<Rightarrow> JSON_stringify h arg)
        else js_String arg) args)"

text \<open>
  \<^verbatim>\<open>__range\<close> on integers. With three arguments the source loops
  \<^verbatim>\<open>for (let i = start; step > 0 ? i < stop : i > stop; i += step)\<close>, which does not end
  for \<^verbatim>\<open>step = 0\<close> and \<^verbatim>\<open>start > stop\<close>: the result is then \<open>None\<close>.
\<close>

function range_up :: "int \<Rightarrow> int \<Rightarrow> int \<Rightarrow> int list" where
  "range_up i stop step = (if 0 < step \<and> i < stop then i # range_up (i + step) stop step else [])"
  by pat_completeness auto
termination
  by (relation "measure (\<lambda>(i, stop, step). nat (stop - i))") auto

function range_down :: "int \<Rightarrow> int \<Rightarrow> int \<Rightarrow> int list" where
  "range_down i stop step = (if step < 0 \<and> i > stop then i # range_down (i + step) stop step else [])"
  by pat_completeness auto
termination
  by (relation "measure (\<lambda>(i, stop, step). nat (i - stop))") auto

declare range_up.simps [simp del] range_down.simps [simp del]

fun helper_range :: "int list \<Rightarrow> val list option" where
  "helper_range [n] = Some (map (\<lambda>i. VNum (int i)) [0..<nat n])"
| "helper_range [a, b] = Some (map (\<lambda>i. VNum (int i + a)) [0..<nat (b - a)])"
| "helper_range [start, stop, step] =
     (if 0 < step then Some (map VNum (range_up start stop step))
      else if step < 0 then Some (map VNum (range_down start stop step))
      else if start > stop then None
      else Some [])"
| "helper_range _ = Some []"

fun helper_len :: "val \<Rightarrow> error + val" where
  "helper_len (VList xs) = Inr (VNum (int (length xs)))"
| "helper_len (VStr s) = Inr (VNum (int (length s)))"
| "helper_len (VDict kvs) = Inr (VNum (int (length kvs)))"
| "helper_len (VFun n ps b cl) = Inr (VNum 5)"
| "helper_len v = Inl (Error (''object of type '' @ sq @ typeof v @ sq @ '' has no len()''))"

subsection \<open>\<^verbatim>\<open>safeEval\<close> (first version, lines 69 to 98)\<close>

definition word_rx :: "string \<Rightarrow> rx" where
  "word_rx w = seqs [WordB, lits w, WordB]"

definition call_rx :: "string \<Rightarrow> rx" where
  "call_rx w = seqs [WordB, lits w, One (Lit (CHR ''(''))]"

text \<open>\<^verbatim>\<open>/\bnot\s+/\<close>\<close>

definition not_rx :: rx where
  "not_rx = seqs [WordB, lits ''not'', rplus (One Space)]"

text \<open>\<^verbatim>\<open>/(\d+|\w+)\s*\*\*\s*(\d+|\w+)/\<close>\<close>

definition pow_rx :: rx where
  "pow_rx = seqs [Grp 1 (Alt (rplus (One Digit)) (rplus (One Word))), Star (One Space),
     lits ''**'', Star (One Space), Grp 2 (Alt (rplus (One Digit)) (rplus (One Word)))]"

text \<open>\<^verbatim>\<open>/'([^']*)'/\<close>\<close>

definition quoted_rx :: rx where
  "quoted_rx = seqs [One (Lit (CHR 0x27)), Grp 1 (Star (One (NoneOf [CHR 0x27]))), One (Lit (CHR 0x27))]"

definition jsExpression :: "string \<Rightarrow> string" where
  "jsExpression expression =
     (let e = replaceAll (word_rx ''True'') (\<lambda>c. ''true'') expression;
          e = replaceAll (word_rx ''False'') (\<lambda>c. ''false'') e;
          e = replaceAll (word_rx ''None'') (\<lambda>c. ''null'') e;
          e = replaceAll (call_rx ''print'') (\<lambda>c. ''__print('') e;
          e = replaceAll (call_rx ''range'') (\<lambda>c. ''__range('') e;
          e = replaceAll (call_rx ''len'') (\<lambda>c. ''__len('') e;
          e = replaceAll not_rx (\<lambda>c. ''!'') e;
          e = replaceAll (word_rx ''and'') (\<lambda>c. ''&&'') e;
          e = replaceAll (word_rx ''or'') (\<lambda>c. ''||'') e;
          e = replaceAll (lits ''//'') (\<lambda>c. ''Math.floor'') e;
          e = replaceAll (lits ''**'') (\<lambda>c. ''**'') e;
          e = replaceAll pow_rx (\<lambda>c. ''Math.pow('' @ capS c 1 @ '', '' @ capS c 2 @ '')'') e;
          e = replaceAll quoted_rx (\<lambda>c. dq @ capS c 1 @ dq) e
      in e)"

definition safeEval :: "host \<Rightarrow> string \<Rightarrow> env \<Rightarrow> error + val" where
  "safeEval h expression vars =
     (case evalFunction h (jsExpression expression) vars of
        Inr v \<Rightarrow> Inr v
      | Inl err \<Rightarrow> Inl (Error (''Error evaluating: '' @ expression @ '' - '' @ message err)))"

subsection \<open>A host for a fragment of JavaScript\<close>

text \<open>
  \<open>js_host\<close> evaluates the expressions built from decimal integers, double-quoted
  strings without escapes, \<^verbatim>\<open>true\<close>, \<^verbatim>\<open>false\<close>, \<^verbatim>\<open>null\<close>, variables, the
  operators \<^verbatim>\<open>+\<close>, \<^verbatim>\<open>-\<close>, \<^verbatim>\<open>*\<close> on integers and \<^verbatim>\<open>+\<close> on strings, parentheses,
  calls of the helper functions and of \<^verbatim>\<open>Math.pow\<close> and \<^verbatim>\<open>Math.floor\<close> on integers.
  It throws what JavaScript throws there: a \<^verbatim>\<open>ReferenceError\<close> for a name that is
  neither a variable, a helper nor a global, a \<^verbatim>\<open>SyntaxError\<close> where an operand follows
  an operand, a \<^verbatim>\<open>TypeError\<close> for the call of a variable. The messages are those of V8.
  Everything else is answered by the error \<open>unsupported\<close>, which JavaScript does
  not throw: it marks an input outside the fragment, and no theorem below evaluates
  \<open>js_host\<close> there.
\<close>

definition unsupported :: error where
  "unsupported = Error ''unsupported''"

datatype tok = TNum string | TStr string | TId string | TSym char

datatype lexmode = LStart | LNum string | LId string | LStr string

definition is_ident_start :: "char \<Rightarrow> bool" where
  "is_ident_start c = (is_alpha c \<or> c = CHR ''_'' \<or> c = CHR ''$'')"

definition is_ident_char :: "char \<Rightarrow> bool" where
  "is_ident_char c = (is_word c \<or> c = CHR ''$'')"

definition js_symbols :: string where
  "js_symbols = ''()[]{}+-*/%<>=!&|,.:?''"

definition lex_start :: "char \<Rightarrow> (lexmode \<times> tok list) option" where
  "lex_start c =
     (if is_space c then Some (LStart, [])
      else if is_digit c then Some (LNum [c], [])
      else if is_ident_start c then Some (LId [c], [])
      else if c = CHR 0x22 then Some (LStr [], [])
      else if c \<in> set js_symbols then Some (LStart, [TSym c])
      else None)"

fun js_lex :: "lexmode \<Rightarrow> string \<Rightarrow> tok list option" where
  "js_lex LStart [] = Some []"
| "js_lex (LNum ds) [] = Some [TNum ds]"
| "js_lex (LId w) [] = Some [TId w]"
| "js_lex (LStr w) [] = None"
| "js_lex LStart (c # cs) =
     (case lex_start c of None \<Rightarrow> None | Some (m, ts) \<Rightarrow> map_option (\<lambda>r. ts @ r) (js_lex m cs))"
| "js_lex (LNum ds) (c # cs) =
     (if is_digit c then js_lex (LNum (ds @ [c])) cs
      else if is_ident_char c \<or> c = CHR ''.'' then None
      else (case lex_start c of None \<Rightarrow> None
            | Some (m, ts) \<Rightarrow> map_option (\<lambda>r. TNum ds # ts @ r) (js_lex m cs)))"
| "js_lex (LId w) (c # cs) =
     (if is_ident_char c then js_lex (LId (w @ [c])) cs
      else (case lex_start c of None \<Rightarrow> None
            | Some (m, ts) \<Rightarrow> map_option (\<lambda>r. TId w # ts @ r) (js_lex m cs)))"
| "js_lex (LStr w) (c # cs) =
     (if c = CHR 0x22 then map_option (\<lambda>r. TStr w # r) (js_lex LStart cs)
      else if c = CHR 0x5C \<or> c = CHR 0x0A \<or> c = CHR 0x0D then None
      else js_lex (LStr (w @ [c])) cs)"

text \<open>A decimal literal; one with a leading zero is left out of the fragment.\<close>

definition num_of_digits :: "string \<Rightarrow> int option" where
  "num_of_digits ds =
     (if ds = [] \<or> (length ds > 1 \<and> hd ds = CHR ''0'') then None
      else Some (int (foldl (\<lambda>n c. 10 * n + (of_char c - 48)) 0 ds)))"

definition js_reserved :: "string list" where
  "js_reserved = [''break'', ''case'', ''catch'', ''class'', ''const'', ''continue'', ''debugger'',
     ''default'', ''delete'', ''do'', ''else'', ''enum'', ''export'', ''extends'', ''false'',
     ''finally'', ''for'', ''function'', ''if'', ''import'', ''in'', ''instanceof'', ''new'', ''null'',
     ''return'', ''super'', ''switch'', ''this'', ''throw'', ''true'', ''try'', ''typeof'', ''var'',
     ''void'', ''while'', ''with'', ''let'', ''static'', ''yield'', ''await'', ''implements'',
     ''interface'', ''package'', ''private'', ''protected'', ''public'']"

definition js_globals :: "string list" where
  "js_globals = [''undefined'', ''NaN'', ''Infinity'', ''globalThis'', ''window'', ''self'',
     ''document'', ''arguments'', ''eval'', ''Math'', ''JSON'', ''Object'', ''Array'', ''String'',
     ''Number'', ''Boolean'', ''Symbol'', ''BigInt'', ''Date'', ''RegExp'', ''Error'', ''Function'',
     ''Map'', ''Set'', ''WeakMap'', ''WeakSet'', ''Promise'', ''Proxy'', ''Reflect'', ''Intl'',
     ''parseInt'', ''parseFloat'', ''isNaN'', ''isFinite'', ''console'', ''name'', ''length'',
     ''location'', ''history'', ''navigator'', ''screen'', ''top'', ''parent'', ''frames'',
     ''status'', ''event'', ''origin'', ''closed'', ''opener'', ''performance'', ''crypto'']"

definition helper_names :: "string list" where
  "helper_names = [''__print'', ''__repr'', ''__range'', ''__len'']"

datatype jexp = JLit val | JVar string | JBin char jexp jexp | JCall string "jexp list"
  | JMath string "jexp list"

datatype perr = PSyntax string | PUnsupported

text \<open>
  A recursive-descent parser; the first argument bounds the depth of the recursion, and
  running out of it is \<open>PUnsupported\<close>.
\<close>

definition closes_arg :: "jexp \<Rightarrow> tok list \<Rightarrow> (bool \<times> tok list) option" where
  "closes_arg a ts =
     (case ts of
        TSym d # r \<Rightarrow> if d = CHR '','' then Some (True, r) else if d = CHR '')'' then Some (False, r) else None
      | _ \<Rightarrow> None)"

datatype pmode = MExpr | MExprRest jexp | MTerm | MTermRest jexp | MAtom | MArgs

fun js_p :: "nat \<Rightarrow> pmode \<Rightarrow> tok list \<Rightarrow> perr + (jexp list \<times> tok list)" where
  "js_p 0 m ts = Inl PUnsupported"
| "js_p (Suc n) MExpr ts =
     (case js_p n MTerm ts of Inr ([a], r) \<Rightarrow> js_p n (MExprRest a) r | Inr _ \<Rightarrow> Inl PUnsupported
      | Inl e \<Rightarrow> Inl e)"
| "js_p (Suc n) (MExprRest a) ts =
     (case ts of
        TSym c # r \<Rightarrow>
          (if c = CHR ''+'' \<or> c = CHR ''-'' then
             (case js_p n MTerm r of Inr ([b], r2) \<Rightarrow> js_p n (MExprRest (JBin c a b)) r2
              | Inr _ \<Rightarrow> Inl PUnsupported | Inl e \<Rightarrow> Inl e)
           else Inr ([a], ts))
      | _ \<Rightarrow> Inr ([a], ts))"
| "js_p (Suc n) MTerm ts =
     (case js_p n MAtom ts of Inr ([a], r) \<Rightarrow> js_p n (MTermRest a) r | Inr _ \<Rightarrow> Inl PUnsupported
      | Inl e \<Rightarrow> Inl e)"
| "js_p (Suc n) (MTermRest a) ts =
     (case ts of
        TSym c # r \<Rightarrow>
          (if c = CHR ''*'' then
             (if (case r of TSym d # r2 \<Rightarrow> d = CHR ''*'' | _ \<Rightarrow> False) then Inl PUnsupported
              else (case js_p n MAtom r of Inr ([b], r2) \<Rightarrow> js_p n (MTermRest (JBin c a b)) r2
                    | Inr _ \<Rightarrow> Inl PUnsupported | Inl e \<Rightarrow> Inl e))
           else Inr ([a], ts))
      | _ \<Rightarrow> Inr ([a], ts))"
| "js_p (Suc n) MAtom ts =
     (case ts of
        [] \<Rightarrow> Inl (PSyntax (''Unexpected token '' @ sq @ '';'' @ sq))
      | TNum ds # r \<Rightarrow>
          (case num_of_digits ds of None \<Rightarrow> Inl PUnsupported | Some k \<Rightarrow> Inr ([JLit (VNum k)], r))
      | TStr w # r \<Rightarrow> Inr ([JLit (VStr w)], r)
      | TId x # r \<Rightarrow>
          (if x = ''true'' then Inr ([JLit (VBool True)], r)
           else if x = ''false'' then Inr ([JLit (VBool False)], r)
           else if x = ''null'' then Inr ([JLit VNull], r)
           else if x \<in> set js_reserved then Inl PUnsupported
           else (case r of
                   TSym c # r2 \<Rightarrow>
                     (if c = CHR ''('' then
                        (case js_p n MArgs r2 of Inl e \<Rightarrow> Inl e | Inr (as, r3) \<Rightarrow> Inr ([JCall x as], r3))
                      else if c = CHR ''.'' then
                        (case r2 of
                           TId f # TSym d # r3 \<Rightarrow>
                             (if x = ''Math'' \<and> d = CHR ''('' then
                                (case js_p n MArgs r3 of Inl e \<Rightarrow> Inl e
                                 | Inr (as, r4) \<Rightarrow> Inr ([JMath f as], r4))
                              else Inl PUnsupported)
                         | _ \<Rightarrow> Inl PUnsupported)
                      else Inr ([JVar x], r))
                 | _ \<Rightarrow> Inr ([JVar x], r)))
      | TSym c # r \<Rightarrow>
          (if c = CHR ''('' then
             (case js_p n MExpr r of
                Inr ([a], r2) \<Rightarrow>
                  (case closes_arg a r2 of
                     Some (False, r3) \<Rightarrow> Inr ([a], r3)
                   | _ \<Rightarrow> Inl PUnsupported)
              | Inr _ \<Rightarrow> Inl PUnsupported
              | Inl e \<Rightarrow> Inl e)
           else Inl PUnsupported))"
| "js_p (Suc n) MArgs ts =
     (if (case ts of TSym c # r \<Rightarrow> c = CHR '')'' | _ \<Rightarrow> False) then Inr ([], tl ts)
      else (case js_p n MExpr ts of
              Inr ([a], r) \<Rightarrow>
                (case closes_arg a r of
                   None \<Rightarrow> Inl PUnsupported
                 | Some (again, r2) \<Rightarrow>
                     (if again then
                        (case js_p n MArgs r2 of Inl e \<Rightarrow> Inl e | Inr (as, r3) \<Rightarrow> Inr (a # as, r3))
                      else Inr ([a], r2)))
            | Inr _ \<Rightarrow> Inl PUnsupported
            | Inl e \<Rightarrow> Inl e))"

text \<open>
  What follows a complete expression must be the \<^verbatim>\<open>;\<close> that \<^verbatim>\<open>safeEval\<close> appends.
  A literal or an identifier there is a syntax error of JavaScript; a symbol may start a
  construct outside the fragment.
\<close>

definition js_parse :: "tok list \<Rightarrow> perr + jexp" where
  "js_parse ts =
     (case js_p (4 * length ts + 4) MExpr ts of
        Inl e \<Rightarrow> Inl e
      | Inr ([a], []) \<Rightarrow> Inr a
      | Inr ([a], TNum ds # r) \<Rightarrow> Inl (PSyntax ''Unexpected number'')
      | Inr ([a], TStr w # r) \<Rightarrow> Inl (PSyntax ''Unexpected string'')
      | Inr ([a], TId x # r) \<Rightarrow>
          (if x = ''in'' \<or> x = ''instanceof'' then Inl PUnsupported
           else Inl (PSyntax (''Unexpected identifier '' @ sq @ x @ sq)))
      | Inr _ \<Rightarrow> Inl PUnsupported)"

fun sequenceE :: "(error + 'a) list \<Rightarrow> error + 'a list" where
  "sequenceE [] = Inr []"
| "sequenceE (Inl e # xs) = Inl e"
| "sequenceE (Inr v # xs) = (case sequenceE xs of Inl e \<Rightarrow> Inl e | Inr vs \<Rightarrow> Inr (v # vs))"

fun num_args :: "val list \<Rightarrow> int list option" where
  "num_args [] = Some []"
| "num_args (VNum n # vs) = map_option (\<lambda>ns. n # ns) (num_args vs)"
| "num_args (v # vs) = None"

definition js_plus :: "val \<Rightarrow> val \<Rightarrow> error + val" where
  "js_plus a b =
     (case (a, b) of
        (VNum x, VNum y) \<Rightarrow> Inr (VNum (x + y))
      | (VStr x, VStr y) \<Rightarrow> Inr (VStr (x @ y))
      | (VStr x, VNum y) \<Rightarrow> Inr (VStr (x @ show_int y))
      | (VNum x, VStr y) \<Rightarrow> Inr (VStr (show_int x @ y))
      | _ \<Rightarrow> Inl unsupported)"

definition js_arith :: "char \<Rightarrow> val \<Rightarrow> val \<Rightarrow> error + val" where
  "js_arith c a b =
     (if c = CHR ''+'' then js_plus a b
      else (case (a, b) of
              (VNum x, VNum y) \<Rightarrow>
                (if c = CHR ''-'' then Inr (VNum (x - y))
                 else if c = CHR ''*'' then Inr (VNum (x * y))
                 else if c = CHR ''/'' \<and> y \<noteq> 0 \<and> x mod y = 0 then Inr (VNum (x div y))
                 else if c = CHR ''%'' \<and> y \<noteq> 0 then Inr (VNum (sgn x * (\<bar>x\<bar> mod \<bar>y\<bar>)))
                 else Inl unsupported)
            | _ \<Rightarrow> Inl unsupported))"

fun js_eval :: "env \<Rightarrow> jexp \<Rightarrow> error + val" where
  "js_eval vars (JLit v) = Inr v"
| "js_eval vars (JVar x) =
     (if x \<in> set helper_names then Inl unsupported
      else (case map_of vars x of
              Some v \<Rightarrow> Inr v
            | None \<Rightarrow> if x \<in> set js_globals then Inl unsupported
                      else Inl (Error (x @ '' is not defined''))))"
| "js_eval vars (JBin c a b) =
     (case js_eval vars a of
        Inl e \<Rightarrow> Inl e
      | Inr x \<Rightarrow> (case js_eval vars b of Inl e \<Rightarrow> Inl e | Inr y \<Rightarrow> js_arith c x y))"
| "js_eval vars (JCall f as) =
     (if f \<in> set helper_names then
        (case sequenceE (map (js_eval vars) as) of
           Inl e \<Rightarrow> Inl e
         | Inr vs \<Rightarrow>
             (if f = ''__range'' then
                (case num_args vs of
                   None \<Rightarrow> Inl unsupported
                 | Some ns \<Rightarrow> (case helper_range ns of None \<Rightarrow> Inl unsupported | Some xs \<Rightarrow> Inr (VList xs)))
              else if f = ''__len'' then helper_len (case vs of [] \<Rightarrow> VUndef | v # _ \<Rightarrow> v)
              else Inl unsupported))
      else (case map_of vars f of
              None \<Rightarrow> if f \<in> set js_globals then Inl unsupported
                      else Inl (Error (f @ '' is not defined''))
            | Some v \<Rightarrow>
                (case sequenceE (map (js_eval vars) as) of
                   Inl e \<Rightarrow> Inl e
                 | Inr vs \<Rightarrow> Inl (Error (f @ '' is not a function'')))))"
| "js_eval vars (JMath f as) =
     (if map_of vars ''Math'' \<noteq> None then Inl unsupported
      else (case sequenceE (map (js_eval vars) as) of
              Inl e \<Rightarrow> Inl e
            | Inr vs \<Rightarrow>
                (if f = ''pow'' then
                   (case vs of
                      [VNum a, VNum b] \<Rightarrow> if 0 \<le> b then Inr (VNum (a ^ nat b)) else Inl unsupported
                    | _ \<Rightarrow> Inl unsupported)
                 else if f = ''floor'' then
                   (case vs of [VNum a] \<Rightarrow> Inr (VNum a) | _ \<Rightarrow> Inl unsupported)
                 else Inl unsupported)))"

text \<open>The names of the variables become the parameters of the \<^verbatim>\<open>Function\<close>.\<close>

definition valid_param :: "string \<Rightarrow> bool" where
  "valid_param x = (x \<noteq> [] \<and> is_ident_start (hd x) \<and> list_all is_ident_char x
     \<and> x \<notin> set js_reserved \<and> x \<noteq> ''eval'' \<and> x \<noteq> ''arguments'')"

definition js_evalFunction :: "string \<Rightarrow> env \<Rightarrow> error + val" where
  "js_evalFunction body vars =
     (if \<not> list_all valid_param (map fst vars) then Inl unsupported
      else (case js_lex LStart body of
              None \<Rightarrow> Inl unsupported
            | Some [] \<Rightarrow> Inr VUndef
            | Some ts \<Rightarrow>
                (case js_parse ts of
                   Inl (PSyntax m) \<Rightarrow> Inl (Error m)
                 | Inl PUnsupported \<Rightarrow> Inl unsupported
                 | Inr a \<Rightarrow> js_eval vars a)))"

text \<open>\<^verbatim>\<open>JSON.stringify\<close> and \<^verbatim>\<open>JSON.parse\<close> of \<open>js_host\<close>.\<close>

definition hex_digit :: "nat \<Rightarrow> char" where
  "hex_digit n = ''0123456789abcdef'' ! n"

definition json_escape_char :: "char \<Rightarrow> string" where
  "json_escape_char c =
     (if c = CHR 0x22 then [CHR 0x5C, CHR 0x22]
      else if c = CHR 0x5C then [CHR 0x5C, CHR 0x5C]
      else if c = CHR 0x08 then [CHR 0x5C, CHR ''b'']
      else if c = CHR 0x0C then [CHR 0x5C, CHR ''f'']
      else if c = CHR 0x0A then [CHR 0x5C, CHR ''n'']
      else if c = CHR 0x0D then [CHR 0x5C, CHR ''r'']
      else if c = CHR 0x09 then [CHR 0x5C, CHR ''t'']
      else if (of_char c :: nat) < 32 then
        [CHR 0x5C, CHR ''u'', CHR ''0'', CHR ''0'', hex_digit (of_char c div 16), hex_digit (of_char c mod 16)]
      else [c])"

definition json_quote :: "string \<Rightarrow> string" where
  "json_quote s = dq @ concat (map json_escape_char s) @ dq"

definition json_object :: "(string \<times> string) list \<Rightarrow> string" where
  "json_object kvs = ''{'' @ joinWith '','' (map (\<lambda>kv. json_quote (fst kv) @ '':'' @ snd kv) kvs) @ ''}''"

definition json_array :: "string list \<Rightarrow> string" where
  "json_array xs = ''['' @ joinWith '','' xs @ '']''"

definition line_json :: "lineData \<Rightarrow> string" where
  "line_json l = json_object [(''content'', json_quote (content l)),
     (''originalIndex'', show_int (int (originalIndex l))),
     (''trimmed'', json_quote (trimmed l)),
     (''indent'', show_int (int (indent l)))]"

fun js_stringify :: "val \<Rightarrow> string" where
  "js_stringify VUndef = ''undefined''"
| "js_stringify VNull = ''null''"
| "js_stringify (VBool b) = (if b then ''true'' else ''false'')"
| "js_stringify (VNum n) = show_int n"
| "js_stringify (VStr s) = json_quote s"
| "js_stringify (VList xs) =
     json_array (map (\<lambda>x. if is_undef x then ''null'' else js_stringify x) xs)"
| "js_stringify (VDict kvs) =
     json_object (map (\<lambda>kv. (fst kv, js_stringify (snd kv))) (filter (\<lambda>kv. \<not> is_undef (snd kv)) kvs))"
| "js_stringify (VFun n ps b cl) =
     json_object [(''name'', json_quote n), (''params'', json_array (map json_quote ps)),
       (''body'', json_array (map line_json b)),
       (''closure'', json_object (map (\<lambda>kv. (fst kv, js_stringify (snd kv)))
          (filter (\<lambda>kv. \<not> is_undef (snd kv)) cl))),
       (''isFunction'', ''true'')]"

datatype jmode = JValue | JElems | JMembers

definition dict_cons :: "string \<Rightarrow> val \<Rightarrow> env \<Rightarrow> env" where
  "dict_cons k v kvs = (k, (case map_of kvs k of Some w \<Rightarrow> w | None \<Rightarrow> v)) # env_delete kvs k"

fun json_p :: "nat \<Rightarrow> jmode \<Rightarrow> tok list \<Rightarrow> (val \<times> tok list) option" where
  "json_p 0 m ts = None"
| "json_p (Suc n) JValue ts =
     (case ts of
        TNum ds # r \<Rightarrow> map_option (\<lambda>k. (VNum k, r)) (num_of_digits ds)
      | TStr w # r \<Rightarrow> Some (VStr w, r)
      | TId x # r \<Rightarrow>
          (if x = ''true'' then Some (VBool True, r)
           else if x = ''false'' then Some (VBool False, r)
           else if x = ''null'' then Some (VNull, r)
           else None)
      | TSym c # r \<Rightarrow>
          (if c = CHR ''-'' then
             (case r of TNum ds # r2 \<Rightarrow> map_option (\<lambda>k. (VNum (- k), r2)) (num_of_digits ds) | _ \<Rightarrow> None)
           else if c = CHR ''['' then
             (case r of
                TSym d # r2 \<Rightarrow> if d = CHR '']'' then Some (VList [], r2) else json_p n JElems r
              | _ \<Rightarrow> json_p n JElems r)
           else if c = CHR ''{'' then
             (case r of
                TSym d # r2 \<Rightarrow> if d = CHR ''}'' then Some (VDict [], r2) else None
              | _ \<Rightarrow> json_p n JMembers r)
           else None)
      | [] \<Rightarrow> None)"
| "json_p (Suc n) JElems ts =
     (case json_p n JValue ts of
        Some (v, TSym d # r) \<Rightarrow>
          (if d = CHR '','' then
             (case json_p n JElems r of Some (VList vs, r2) \<Rightarrow> Some (VList (v # vs), r2) | _ \<Rightarrow> None)
           else if d = CHR '']'' then Some (VList [v], r)
           else None)
      | _ \<Rightarrow> None)"
| "json_p (Suc n) JMembers ts =
     (case ts of
        TStr k # TSym c # r \<Rightarrow>
          (if c = CHR '':'' then
             (case json_p n JValue r of
                Some (v, TSym d # r2) \<Rightarrow>
                  (if d = CHR '','' then
                     (case json_p n JMembers r2 of
                        Some (VDict kvs, r3) \<Rightarrow> Some (VDict (dict_cons k v kvs), r3)
                      | _ \<Rightarrow> None)
                   else if d = CHR ''}'' then Some (VDict [(k, v)], r2)
                   else None)
              | _ \<Rightarrow> None)
           else None)
      | _ \<Rightarrow> None)"

definition js_JSON_parse :: "string \<Rightarrow> error + val" where
  "js_JSON_parse s =
     (case js_lex LStart s of
        None \<Rightarrow> Inl unsupported
      | Some ts \<Rightarrow>
          (case json_p (4 * length ts + 4) JValue ts of
             Some (v, []) \<Rightarrow> Inr v
           | _ \<Rightarrow> Inl (Error ''Unexpected token in JSON'')))"

text \<open>
  Number parsing and arithmetic of \<open>js_host\<close>, on decimal integers. Where the result
  is not an integer the answer is \<open>VUndef\<close>, which arithmetic never yields in
  JavaScript: the mark of a case outside the fragment.
\<close>

definition parse_int_str :: "string \<Rightarrow> int option" where
  "parse_int_str s =
     (case s of
        [] \<Rightarrow> None
      | c # cs \<Rightarrow>
          (if c = CHR ''-'' then
             (if cs \<noteq> [] \<and> list_all is_digit cs then map_option uminus (num_of_digits cs) else None)
           else if list_all is_digit (c # cs) then num_of_digits (c # cs)
           else None))"

definition js_isNaN :: "string \<Rightarrow> bool" where
  "js_isNaN s = (trim s \<noteq> [] \<and> parse_int_str (trim s) = None)"

definition js_parseFloat :: "string \<Rightarrow> val" where
  "js_parseFloat s = (case parse_int_str (trim s) of Some n \<Rightarrow> VNum n | None \<Rightarrow> VUndef)"

definition js_parseInt :: "val \<Rightarrow> int option" where
  "js_parseInt v = (case v of VNum n \<Rightarrow> Some n | VStr s \<Rightarrow> parse_int_str (trim s) | _ \<Rightarrow> None)"

definition js_binop :: "char \<Rightarrow> val \<Rightarrow> val \<Rightarrow> val" where
  "js_binop c a b = (case js_arith c a b of Inr v \<Rightarrow> v | Inl e \<Rightarrow> VUndef)"

definition js_host :: host where
  "js_host = \<lparr>evalFunction = js_evalFunction, JSON_parse = js_JSON_parse,
     JSON_stringify = js_stringify, isNaN = js_isNaN, parseFloat = js_parseFloat,
     parseInt = js_parseInt, binop = js_binop\<rparr>"

subsection \<open>The regular expressions of \<^verbatim>\<open>processLine\<close> and \<^verbatim>\<open>parseCode\<close>\<close>

definition lit :: "char \<Rightarrow> rx" where
  "lit c = One (Lit c)"

text \<open>\<^verbatim>\<open>/\[.*?\s+for\s+\w+\s+in\s+.*?\]/\<close>\<close>

definition listcomp_test_rx :: rx where
  "listcomp_test_rx = seqs [lit (CHR ''[''), Lazy (One Dot), rplus (One Space), lits ''for'',
     rplus (One Space), rplus (One Word), rplus (One Space), lits ''in'', rplus (One Space),
     Lazy (One Dot), lit (CHR '']'')]"

text \<open>\<^verbatim>\<open>/\[(.*?)\s+for\s+(\w+)\s+in\s+(.*?)(?:\s+if\s+(.*?))?\]/\<close>\<close>

definition listcomp_rx :: rx where
  "listcomp_rx = seqs [lit (CHR ''[''), Grp 1 (Lazy (One Dot)), rplus (One Space), lits ''for'',
     rplus (One Space), Grp 2 (rplus (One Word)), rplus (One Space), lits ''in'', rplus (One Space),
     Grp 3 (Lazy (One Dot)),
     ropt (seqs [rplus (One Space), lits ''if'', rplus (One Space), Grp 4 (Lazy (One Dot))]),
     lit (CHR '']'')]"

text \<open>\<^verbatim>\<open>/\w+\(.*\)/\<close> and \<^verbatim>\<open>/(\w+)\((.*)\)/\<close>\<close>

definition call_test_rx :: rx where
  "call_test_rx = seqs [rplus (One Word), lit (CHR ''(''), Star (One Dot), lit (CHR '')'')]"

definition call_match_rx :: rx where
  "call_match_rx = seqs [Grp 1 (rplus (One Word)), lit (CHR ''(''), Grp 2 (Star (One Dot)), lit (CHR '')'')]"

text \<open>\<^verbatim>\<open>/[\w]+\s*[\+\-\*\/%]=\s*.+/\<close> and \<^verbatim>\<open>/(\w+)\s*([\+\-\*\/%])=(.+)/\<close>\<close>

definition augmented_test_rx :: rx where
  "augmented_test_rx = seqs [rplus (One Word), Star (One Space), One (OneOf ''+-*/%''),
     lit (CHR ''=''), Star (One Space), rplus (One Dot)]"

definition augmented_rx :: rx where
  "augmented_rx = seqs [Grp 1 (rplus (One Word)), Star (One Space), Grp 2 (One (OneOf ''+-*/%'')),
     lit (CHR ''=''), Grp 3 (rplus (One Dot))]"

text \<open>\<^verbatim>\<open>/\w+\.(append|extend|remove|pop|insert|index|count)\(/\<close> and \<^verbatim>\<open>/(\w+)\.(\w+)\((.*)\)/\<close>\<close>

definition listop_test_rx :: rx where
  "listop_test_rx = seqs [rplus (One Word), lit (CHR ''.''),
     Grp 1 (alts [lits ''append'', lits ''extend'', lits ''remove'', lits ''pop'', lits ''insert'',
       lits ''index'', lits ''count'']),
     lit (CHR ''('')]"

definition method_rx :: rx where
  "method_rx = seqs [Grp 1 (rplus (One Word)), lit (CHR ''.''), Grp 2 (rplus (One Word)),
     lit (CHR ''(''), Grp 3 (Star (One Dot)), lit (CHR '')'')]"

text \<open>\<^verbatim>\<open>/print\((.*)\)/\<close>\<close>

definition print_rx :: rx where
  "print_rx = seqs [lits ''print'', lit (CHR ''(''), Grp 1 (Star (One Dot)), lit (CHR '')'')]"

text \<open>\<^verbatim>\<open>/def\s+(\w+)\((.*?)\):/\<close>\<close>

definition def_rx :: rx where
  "def_rx = seqs [lits ''def'', rplus (One Space), Grp 1 (rplus (One Word)), lit (CHR ''(''),
     Grp 2 (Lazy (One Dot)), lit (CHR '')''), lit (CHR '':'')]"

text \<open>\<^verbatim>\<open>/^\w+\(.*\)$/\<close> and \<^verbatim>\<open>/^(\w+)\((.*)\)$/\<close>\<close>

definition standalone_test_rx :: rx where
  "standalone_test_rx = seqs [Bol, rplus (One Word), lit (CHR ''(''), Star (One Dot), lit (CHR '')''), Eol]"

definition standalone_rx :: rx where
  "standalone_rx = seqs [Bol, Grp 1 (rplus (One Word)), lit (CHR ''(''), Grp 2 (Star (One Dot)),
     lit (CHR '')''), Eol]"

text \<open>\<^verbatim>\<open>/for\s+(\w+)\s+in\s+(.*?):/\<close>\<close>

definition for_rx :: rx where
  "for_rx = seqs [lits ''for'', rplus (One Space), Grp 1 (rplus (One Word)), rplus (One Space),
     lits ''in'', rplus (One Space), Grp 2 (Lazy (One Dot)), lit (CHR '':'')]"

text \<open>\<^verbatim>\<open>/(\w+):/\<close>, used with the replacement \<^verbatim>\<open>"$1":\<close>.\<close>

definition key_rx :: rx where
  "key_rx = seqs [Grp 1 (rplus (One Word)), lit (CHR '':'')]"

definition quoteKeys :: "string \<Rightarrow> string" where
  "quoteKeys s = replaceAll key_rx (\<lambda>c. dq @ capS c 1 @ dq @ '':'') s"

definition doubleQuotes :: "string \<Rightarrow> string" where
  "doubleQuotes s = replaceAll (lit (CHR 0x27)) (\<lambda>c. dq) s"

subsection \<open>Pieces of \<^verbatim>\<open>processLine\<close>\<close>

text \<open>
  The loop that splits the arguments of a call at the commas outside brackets and
  quotes. It stands three times in \<^verbatim>\<open>processLine\<close> (lines 256 to 281, 521 to 546 and
  623 to 648), each time with the same text.
\<close>

definition splitArgs_step :: "string \<times> int \<times> bool \<times> char \<times> string list \<Rightarrow> char \<Rightarrow> string \<times> int \<times> bool \<times> char \<times> string list" where
  "splitArgs_step st ch =
     (case st of (current, depth, inString, stringChar, argParts) \<Rightarrow>
        if \<not> inString \<and> (ch = CHR 0x22 \<or> ch = CHR 0x27) then
          (current @ [ch], depth, True, ch, argParts)
        else if inString \<and> ch = stringChar then
          (current @ [ch], depth, False, stringChar, argParts)
        else if \<not> inString then
          (if ch = CHR ''('' \<or> ch = CHR ''['' \<or> ch = CHR ''{'' then
             (current @ [ch], depth + 1, inString, stringChar, argParts)
           else if ch = CHR '')'' \<or> ch = CHR '']'' \<or> ch = CHR ''}'' then
             (current @ [ch], depth - 1, inString, stringChar, argParts)
           else if ch = CHR '','' \<and> depth = 0 then
             ([], depth, inString, stringChar, argParts @ [trim current])
           else (current @ [ch], depth, inString, stringChar, argParts))
        else (current @ [ch], depth, inString, stringChar, argParts))"

definition splitArgs :: "string \<Rightarrow> string list" where
  "splitArgs argsStr =
     (if trim argsStr \<noteq> [] then
        (case foldl splitArgs_step ([], 0, False, CHR 0x00, []) argsStr of
           (current, depth, inString, stringChar, argParts) \<Rightarrow>
             if trim current \<noteq> [] then argParts @ [trim current] else argParts)
      else [])"

text \<open>\<^verbatim>\<open>parseMultiLineStructure\<close> (lines 100 to 130), of which only \<^verbatim>\<open>structure\<close> is used.\<close>

fun countBrackets :: "string \<Rightarrow> int \<times> int \<Rightarrow> int \<times> int" where
  "countBrackets [] bc = bc"
| "countBrackets (ch # cs) (braceCount, bracketCount) =
     countBrackets cs
       (if ch = CHR ''{'' then (braceCount + 1, bracketCount)
        else if ch = CHR ''}'' then (braceCount - 1, bracketCount)
        else if ch = CHR ''['' then (braceCount, bracketCount + 1)
        else if ch = CHR '']'' then (braceCount, bracketCount - 1)
        else (braceCount, bracketCount))"

fun multiLine_loop :: "lineData list \<Rightarrow> string \<Rightarrow> int \<times> int \<Rightarrow> string" where
  "multiLine_loop [] structure bc = structure"
| "multiLine_loop (l # ls) structure bc =
     (let structure = structure @ trimmed l;
          bc = countBrackets (trimmed l) bc
      in if bc = (0, 0) then structure
         else multiLine_loop ls (if ls \<noteq> [] then structure @ '' '' else structure) bc)"

definition parseMultiLineStructure :: "lineData list \<Rightarrow> nat \<Rightarrow> string" where
  "parseMultiLineStructure lines startIndex = multiLine_loop (drop startIndex lines) [] (0, 0)"

text \<open>The elements a \<^verbatim>\<open>for ... of\<close> or an index loop visits: of an array, or of a string.\<close>

fun elements :: "val \<Rightarrow> val list" where
  "elements (VList xs) = xs"
| "elements (VStr s) = map (\<lambda>c. VStr [c]) s"
| "elements v = []"

definition notIterable :: "val \<Rightarrow> error" where
  "notIterable v = Error (sq @ typeof v @ sq @ '' object is not iterable'')"

text \<open>\<^verbatim>\<open>parseListComprehension\<close> (lines 133 to 168).\<close>

fun comprehension_loop :: "host \<Rightarrow> string \<Rightarrow> string \<Rightarrow> string option \<Rightarrow> env \<Rightarrow> val list \<Rightarrow> error + val list" where
  "comprehension_loop h expr iterVar condition vars [] = Inr []"
| "comprehension_loop h expr iterVar condition vars (item # items) =
     (let tempVars = env_set vars iterVar item;
          keep = (case condition of
                    None \<Rightarrow> Inr True
                  | Some cond \<Rightarrow>
                      (if cond = [] then Inr True
                       else (case safeEval h cond tempVars of Inl e \<Rightarrow> Inl e | Inr r \<Rightarrow> Inr (truthy r))))
      in case keep of
           Inl e \<Rightarrow> Inl e
         | Inr False \<Rightarrow> comprehension_loop h expr iterVar condition vars items
         | Inr True \<Rightarrow>
             (case safeEval h expr tempVars of
                Inl e \<Rightarrow> Inl e
              | Inr v \<Rightarrow>
                  (case comprehension_loop h expr iterVar condition vars items of
                     Inl e \<Rightarrow> Inl e
                   | Inr vs \<Rightarrow> Inr (v # vs))))"

definition parseListComprehension :: "host \<Rightarrow> string \<Rightarrow> env \<Rightarrow> error + val" where
  "parseListComprehension h expression vars =
     (case rx_match listcomp_rx expression of
        None \<Rightarrow> Inr VNull
      | Some c \<Rightarrow>
          (case (case safeEval h (capS c 3) vars of
                   Inl e \<Rightarrow> Inl e
                 | Inr iterableValue \<Rightarrow>
                     (if \<not> isArray iterableValue \<and> \<not> isString iterableValue
                      then Inl (notIterable iterableValue)
                      else comprehension_loop h (capS c 1) (capS c 2) (cap c 4) vars
                             (elements iterableValue)))
           of Inl e \<Rightarrow> Inl (Error (''List comprehension error: '' @ message e))
            | Inr vs \<Rightarrow> Inr (VList vs)))"

subsection \<open>\<^verbatim>\<open>handleFunctionCall\<close> (lines 171 to 214)\<close>

text \<open>
  The loop over \<^verbatim>\<open>func.body\<close> returns at a line that starts with \<^verbatim>\<open>return \<close>. For
  any other line it evaluates the call
  \<^verbatim>\<open>processLine(bodyLine, functionScope, functionOutput, lines)\<close>; the name
  \<^verbatim>\<open>lines\<close> is bound in \<^verbatim>\<open>parseCode\<close>, \<^verbatim>\<open>processLine\<close> and
  \<^verbatim>\<open>parseMultiLineStructure\<close> only, not in \<^verbatim>\<open>handleFunctionCall\<close> nor around it, so
  the evaluation of the arguments throws a \<^verbatim>\<open>ReferenceError\<close> before \<^verbatim>\<open>processLine\<close> is
  entered, and the \<^verbatim>\<open>catch\<close> of the loop throws it on. The loop therefore ends at its
  first line, whatever that line is, and \<^verbatim>\<open>functionOutput\<close> is still empty where it is
  pushed to \<^verbatim>\<open>output\<close>.
\<close>

definition bindParams :: "env \<Rightarrow> string list \<Rightarrow> val list \<Rightarrow> env" where
  "bindParams closure params args = foldl (\<lambda>scope pa. env_set scope (fst pa) (snd pa)) closure (zip params args)"

definition inFunction :: "string \<Rightarrow> error \<Rightarrow> error" where
  "inFunction funcName err = Error (''Error in function '' @ sq @ funcName @ sq @ '': '' @ message err)"

fun functionBody_loop :: "host \<Rightarrow> string \<Rightarrow> env \<Rightarrow> string list \<Rightarrow> lineData list \<Rightarrow> error + (val \<times> string list)" where
  "functionBody_loop h funcName functionScope functionOutput [] = Inr (VNull, functionOutput)"
| "functionBody_loop h funcName functionScope functionOutput (bodyLine # rest) =
     (if startsWith (trimmed bodyLine) ''return '' then
        (case safeEval h (trim (drop 7 (trimmed bodyLine))) functionScope of
           Inl e \<Rightarrow> Inl (inFunction funcName e)
         | Inr returnValue \<Rightarrow> Inr (returnValue, functionOutput))
      else Inl (inFunction funcName (Error ''lines is not defined'')))"

definition handleFunctionCall :: "host \<Rightarrow> string \<Rightarrow> val list \<Rightarrow> env \<Rightarrow> string list \<Rightarrow> error + (val \<times> string list)" where
  "handleFunctionCall h funcName args vars out =
     (case env_get vars funcName of
        VFun name params body closure \<Rightarrow>
          (case functionBody_loop h funcName (bindParams closure params args) [] body of
             Inl e \<Rightarrow> Inl e
           | Inr (returnValue, functionOutput) \<Rightarrow> Inr (returnValue, out @ functionOutput))
      | _ \<Rightarrow> Inl (Error (sq @ funcName @ sq @ '' is not defined or not a function'')))"

subsection \<open>\<^verbatim>\<open>processLine\<close> (first version, lines 217 to 762)\<close>

type_synonym lineResult = "step list \<times> env \<times> string list"

definition compare_ops :: "string list" where
  "compare_ops = [''=='', ''!='', ''<='', ''>='', ''+='', ''-='', ''*='', ''/='', ''%='']"

definition isAssignment :: "string \<Rightarrow> bool" where
  "isAssignment t = (str_includes t ''='' \<and> \<not> list_ex (str_includes t) compare_ops)"

definition isQuoted :: "string \<Rightarrow> bool" where
  "isQuoted s = ((startsWith s dq \<and> endsWith s dq) \<or> (startsWith s sq \<and> endsWith s sq))"

text \<open>\<^verbatim>\<open>argParts.map(arg => safeEval(arg, vars))\<close>: the first failure is thrown.\<close>

definition evalArg :: "host \<Rightarrow> env \<Rightarrow> string \<Rightarrow> error + val" where
  "evalArg h vars arg = safeEval h arg vars"

definition evalTrimmedArg :: "host \<Rightarrow> env \<Rightarrow> string \<Rightarrow> error + val" where
  "evalTrimmedArg h vars arg = safeEval h (trim arg) vars"

definition callArgs :: "host \<Rightarrow> string \<Rightarrow> env \<Rightarrow> error + val list" where
  "callArgs h argsStr vars = sequenceE (map (evalArg h vars) (splitArgs argsStr))"

text \<open>Lines 302 to 320: a literal that goes on over the next lines.\<close>

definition multiLineValue :: "host \<Rightarrow> lineData list \<Rightarrow> nat \<Rightarrow> string \<Rightarrow> val" where
  "multiLineValue h lines startIndex expression =
     (let structure = parseMultiLineStructure lines startIndex;
          fullExpression = (case str_indexOf structure (take 1 expression) of
                              Some i \<Rightarrow> drop i structure
                            | None \<Rightarrow> drop (length structure - 1) structure)
      in if startsWith fullExpression ''{'' then
           (case JSON_parse h (quoteKeys (doubleQuotes fullExpression)) of
              Inr v \<Rightarrow> v | Inl e \<Rightarrow> VStr fullExpression)
         else if startsWith fullExpression ''['' then
           (case JSON_parse h (doubleQuotes fullExpression) of
              Inr v \<Rightarrow> v | Inl e \<Rightarrow> VStr fullExpression)
         else VUndef)"

text \<open>Lines 336 to 353: \<^verbatim>\<open>True\<close>, \<^verbatim>\<open>False\<close> and \<^verbatim>\<open>None\<close> are replaced wherever they stand.\<close>

definition dictJson :: "string \<Rightarrow> string" where
  "dictJson expression =
     replaceAll (lits ''None'') (\<lambda>c. ''null'')
       (replaceAll (lits ''False'') (\<lambda>c. ''false'')
         (replaceAll (lits ''True'') (\<lambda>c. ''true'') (quoteKeys (doubleQuotes expression))))"

text \<open>Lines 354 to 376: an expression, and what becomes of it when its evaluation fails.\<close>

definition plainValue :: "host \<Rightarrow> string \<Rightarrow> env \<Rightarrow> val" where
  "plainValue h expression vars =
     (case safeEval h expression vars of
        Inr v \<Rightarrow> v
      | Inl err \<Rightarrow>
          (if \<not> isNaN h expression then parseFloat h expression
           else if expression = ''True'' then VBool True
           else if expression = ''False'' then VBool False
           else if expression = ''None'' then VNull
           else if startsWith expression dq \<and> endsWith expression dq then VStr (slice_to_last 1 expression)
           else if startsWith expression sq \<and> endsWith expression sq then VStr (slice_to_last 1 expression)
           else VStr expression))"

definition evalOrText :: "host \<Rightarrow> string \<Rightarrow> env \<Rightarrow> val" where
  "evalOrText h expression vars =
     (case safeEval h expression vars of Inr v \<Rightarrow> v | Inl err \<Rightarrow> VStr expression)"

text \<open>Lines 235 to 376: the value of the right-hand side, with the output after it.\<close>

definition assignedValue ::
  "host \<Rightarrow> lineData list \<Rightarrow> nat \<Rightarrow> string \<Rightarrow> env \<Rightarrow> string list \<Rightarrow> error + (val \<times> string list)" where
  "assignedValue h lines startIndex expression vars out =
     (if rx_test listcomp_test_rx expression then
        (case parseListComprehension h expression vars of
           Inl e \<Rightarrow> Inl (Error (''List comprehension error: '' @ message e))
         | Inr v \<Rightarrow> Inr (v, out))
      else if rx_test call_test_rx expression then
        (case rx_match call_match_rx expression of
           None \<Rightarrow> Inr (VUndef, out)
         | Some c \<Rightarrow>
             (if isFunction (env_get vars (capS c 1)) then
                (case callArgs h (capS c 2) vars of
                   Inl e \<Rightarrow> Inl e
                 | Inr args \<Rightarrow>
                     (case handleFunctionCall h (capS c 1) args vars out of
                        Inl e \<Rightarrow> Inl (Error (''Function call error: '' @ message e))
                      | Inr r \<Rightarrow> Inr r))
              else Inr (evalOrText h expression vars, out)))
      else if (startsWith expression ''{'' \<or> startsWith expression ''['')
              \<and> (\<not> endsWith expression ''}'' \<and> \<not> endsWith expression '']'') then
        Inr (multiLineValue h lines startIndex expression, out)
      else if startsWith expression ''['' \<and> endsWith expression '']'' then
        Inr ((case JSON_parse h (doubleQuotes expression) of
                Inr v \<Rightarrow> v
              | Inl e \<Rightarrow> evalOrText h expression vars), out)
      else if startsWith expression ''{'' \<and> endsWith expression ''}'' then
        Inr ((case JSON_parse h (dictJson expression) of
                Inr v \<Rightarrow> v
              | Inl e \<Rightarrow> evalOrText h expression vars), out)
      else Inr (plainValue h expression vars, out))"

definition assignment :: "host \<Rightarrow> lineData \<Rightarrow> env \<Rightarrow> string list \<Rightarrow> lineData list \<Rightarrow> error + lineResult" where
  "assignment h l vars out lines =
     (let parts = splitOn (CHR ''='') (trimmed l);
          varName = trim (case parts of [] \<Rightarrow> [] | p # ps \<Rightarrow> p);
          expression = trim (joinWith ''='' (tl parts))
      in case assignedValue h lines (originalIndex l) expression vars out of
           Inl e \<Rightarrow> Inl e
         | Inr (value, out1) \<Rightarrow>
             (let oldValue = env_get vars varName;
                  vars1 = env_set vars varName value
              in Inr ([mk_step (originalIndex l) (if is_undef oldValue then Assign else Reassign)
                         [(''variable'', VStr varName), (''value'', value), (''oldValue'', oldValue),
                          (''expression'', VStr expression)] vars1 out1],
                      vars1, out1)))"

text \<open>Lines 393 to 437.\<close>

definition augmentedAssignment :: "host \<Rightarrow> lineData \<Rightarrow> env \<Rightarrow> string list \<Rightarrow> error + lineResult" where
  "augmentedAssignment h l vars out =
     (case rx_match augmented_rx (trimmed l) of
        None \<Rightarrow> Inr ([], vars, out)
      | Some c \<Rightarrow>
          (let varName = capS c 1;
               operator = capS c 2;
               rightExpr = capS c 3;
               oldValue = env_get vars varName;
               rightValue = evalOrText h (trim rightExpr) vars;
               newValue =
                 (if operator = ''+'' then
                    (if isString oldValue \<or> isString rightValue
                     then VStr (js_String oldValue @ js_String rightValue)
                     else binop h (CHR ''+'') oldValue rightValue)
                  else if operator = ''-'' then binop h (CHR ''-'') oldValue rightValue
                  else if operator = ''*'' then binop h (CHR ''*'') oldValue rightValue
                  else if operator = ''/'' then binop h (CHR ''/'') oldValue rightValue
                  else if operator = ''%'' then binop h (CHR ''%'') oldValue rightValue
                  else VUndef);
               vars1 = env_set vars varName newValue
           in Inr ([mk_step (originalIndex l) AugmentedAssign
                      [(''variable'', VStr varName), (''operator'', VStr operator), (''value'', newValue),
                       (''oldValue'', oldValue), (''rightValue'', rightValue)] vars1 out],
                   vars1, out)))"

text \<open>
  Lines 439 to 510. \<^verbatim>\<open>list.indexOf(value)\<close> compares with \<^verbatim>\<open>===\<close>: primitive values
  by value, and an object only with itself, which an evaluated argument is taken not
  to be.
\<close>

definition strict_eq :: "val \<Rightarrow> val \<Rightarrow> bool" where
  "strict_eq a b =
     (case (a, b) of
        (VUndef, VUndef) \<Rightarrow> True
      | (VNull, VNull) \<Rightarrow> True
      | (VBool x, VBool y) \<Rightarrow> x = y
      | (VNum x, VNum y) \<Rightarrow> x = y
      | (VStr x, VStr y) \<Rightarrow> x = y
      | _ \<Rightarrow> False)"

fun indexOf :: "val list \<Rightarrow> val \<Rightarrow> nat option" where
  "indexOf [] v = None"
| "indexOf (x # xs) v = (if strict_eq x v then Some 0 else map_option Suc (indexOf xs v))"

text \<open>The start position \<^verbatim>\<open>splice\<close> computes from its first argument; \<open>None\<close> is \<^verbatim>\<open>NaN\<close>.\<close>

definition splice_start :: "int option \<Rightarrow> nat \<Rightarrow> nat" where
  "splice_start idx len =
     (case idx of
        None \<Rightarrow> 0
      | Some i \<Rightarrow> if i < 0 then nat (max (int len + i) 0) else min (nat i) len)"

definition show_index :: "int option \<Rightarrow> string" where
  "show_index idx = (case idx of None \<Rightarrow> ''NaN'' | Some i \<Rightarrow> show_int i)"

definition listMethod ::
  "host \<Rightarrow> string \<Rightarrow> string \<Rightarrow> string \<Rightarrow> val list \<Rightarrow> env \<Rightarrow> error + (val list \<times> string \<times> val)" where
  "listMethod h operation args listName list vars =
     (if operation = ''append'' then
        (case safeEval h args vars of
           Inl e \<Rightarrow> Inl e
         | Inr value \<Rightarrow>
             Inr (list @ [value], ''Appended '' @ helper_repr h value @ '' to '' @ listName, VNull))
      else if operation = ''extend'' then
        (case safeEval h args vars of
           Inl e \<Rightarrow> Inl e
         | Inr iterable \<Rightarrow>
             (case iterable of
                VList xs \<Rightarrow>
                  Inr (list @ xs, ''Extended '' @ listName @ '' with '' @ helper_repr h iterable, VNull)
              | _ \<Rightarrow> Inl (notIterable iterable)))
      else if operation = ''remove'' then
        (case safeEval h args vars of
           Inl e \<Rightarrow> Inl e
         | Inr value \<Rightarrow>
             (case indexOf list value of
                Some i \<Rightarrow>
                  Inr (take i list @ drop (Suc i) list,
                       ''Removed first occurrence of '' @ helper_repr h value @ '' from '' @ listName, VNull)
              | None \<Rightarrow> Inl (Error (''Value '' @ helper_repr h value @ '' not found in list''))))
      else if operation = ''pop'' then
        (if trim args = [] then
           (let resultValue = (if list = [] then VUndef else last list)
            in Inr (butlast list,
                    ''Popped last element ('' @ helper_repr h resultValue @ '') from '' @ listName,
                    resultValue))
         else
           (case safeEval h args vars of
              Inl e \<Rightarrow> Inl e
            | Inr v \<Rightarrow>
                (let index = parseInt h v;
                     s = splice_start index (length list);
                     resultValue = (if s < length list then list ! s else VUndef)
                 in Inr (take s list @ drop (Suc s) list,
                         ''Popped element at index '' @ show_index index @ '' (''
                           @ helper_repr h resultValue @ '') from '' @ listName,
                         resultValue))))
      else if operation = ''insert'' then
        (case map trim (splitOn (CHR '','') args) of
           indexStr # valueStr # more_parts \<Rightarrow>
             (case safeEval h indexStr vars of
                Inl e \<Rightarrow> Inl e
              | Inr iv \<Rightarrow>
                  (case safeEval h valueStr vars of
                     Inl e \<Rightarrow> Inl e
                   | Inr value \<Rightarrow>
                       (let index = parseInt h iv;
                            s = splice_start index (length list)
                        in Inr (take s list @ [value] @ drop s list,
                                ''Inserted '' @ helper_repr h value @ '' at index '' @ show_index index
                                  @ '' in '' @ listName,
                                VNull))))
         | [indexStr] \<Rightarrow>
             (case safeEval h indexStr vars of
                Inl e \<Rightarrow> Inl e
              | Inr iv \<Rightarrow>
                  Inl (Error (''Error evaluating: undefined - Cannot read properties of undefined (reading ''
                         @ sq @ ''replace'' @ sq @ '')'')))
         | [] \<Rightarrow> Inl (Error ''Error evaluating: undefined''))
      else Inr (list, [], VNull))"

definition listOperation :: "host \<Rightarrow> lineData \<Rightarrow> env \<Rightarrow> string list \<Rightarrow> error + lineResult" where
  "listOperation h l vars out =
     (case rx_match method_rx (trimmed l) of
        None \<Rightarrow> Inr ([], vars, out)
      | Some c \<Rightarrow>
          (let listName = capS c 1; operation = capS c 2; args = capS c 3
           in case env_get vars listName of
                VList oldList \<Rightarrow>
                  (case listMethod h operation args listName oldList vars of
                     Inl e \<Rightarrow> Inl e
                   | Inr (list, operationResult, resultValue) \<Rightarrow>
                       (let vars1 = env_set vars listName (VList list)
                        in Inr ([mk_step (originalIndex l) ListOperation
                                   [(''list'', VStr listName), (''operation'', VStr operation),
                                    (''value'', VList list), (''oldValue'', VList oldList),
                                    (''operationResult'', VStr operationResult),
                                    (''resultValue'', resultValue)] vars1 out],
                                vars1, out)))
              | v \<Rightarrow> Inl (Error (sq @ typeof v @ sq @ '' object has no attribute '' @ sq @ operation @ sq))))"

text \<open>Lines 512 to 583.\<close>

definition printArg :: "host \<Rightarrow> env \<Rightarrow> string \<Rightarrow> val" where
  "printArg h vars arg =
     (case safeEval h arg vars of
        Inr v \<Rightarrow> v
      | Inl err \<Rightarrow> if isQuoted arg then VStr (slice_to_last 1 arg) else VStr arg)"

definition printText :: "host \<Rightarrow> val list \<Rightarrow> string" where
  "printText h printArgs =
     joinWith '' '' (map (\<lambda>arg. case arg of
         VList xs \<Rightarrow> ''['' @ joinWith '', '' (map (helper_repr h) xs) @ '']''
       | _ \<Rightarrow> helper_repr h arg) printArgs)"

definition printStatement :: "host \<Rightarrow> lineData \<Rightarrow> env \<Rightarrow> string list \<Rightarrow> error + lineResult" where
  "printStatement h l vars out =
     (case rx_match print_rx (trimmed l) of
        None \<Rightarrow> Inr ([], vars, out)
      | Some c \<Rightarrow>
          (let printArgs = map (printArg h vars) (splitArgs (capS c 1));
               outputText = printText h printArgs;
               out1 = out @ [outputText]
           in Inr ([mk_step (originalIndex l) Print
                      [(''value'', VList printArgs), (''outputText'', VStr outputText)] vars out1],
                   vars, out1)))"

text \<open>Lines 585 to 611: a \<^verbatim>\<open>def\<close> that reaches \<^verbatim>\<open>processLine\<close> gets an empty body.\<close>

definition paramList :: "string \<Rightarrow> string list" where
  "paramList params = filter (\<lambda>p. p \<noteq> []) (map trim (splitOn (CHR '','') params))"

definition functionDefinition :: "host \<Rightarrow> lineData \<Rightarrow> env \<Rightarrow> string list \<Rightarrow> error + lineResult" where
  "functionDefinition h l vars out =
     (case rx_match def_rx (trimmed l) of
        None \<Rightarrow> Inr ([], vars, out)
      | Some c \<Rightarrow>
          (let funcName = capS c 1;
               params = paramList (capS c 2);
               func = VFun funcName params [] (snapshot vars);
               vars1 = env_set vars funcName func
           in Inr ([mk_step (originalIndex l) FunctionDefinition
                      [(''functionName'', VStr funcName), (''params'', VList (map VStr params)),
                       (''bodyLines'', VNum 0)] vars1 out],
                   vars1, out)))"

text \<open>Lines 613 to 672.\<close>

definition functionCallStatement :: "host \<Rightarrow> lineData \<Rightarrow> env \<Rightarrow> string list \<Rightarrow> error + lineResult" where
  "functionCallStatement h l vars out =
     (case rx_match standalone_rx (trimmed l) of
        None \<Rightarrow> Inr ([], vars, out)
      | Some c \<Rightarrow>
          (let funcName = capS c 1; argsStr = capS c 2
           in if isFunction (env_get vars funcName) then
                (case sequenceE (map (evalTrimmedArg h vars) (splitArgs argsStr)) of
                   Inl e \<Rightarrow> Inl e
                 | Inr args \<Rightarrow>
                     (case handleFunctionCall h funcName args vars out of
                        Inl e \<Rightarrow> Inl (Error (''Function call error: '' @ message e))
                      | Inr (result, out1) \<Rightarrow>
                          Inr ([mk_step (originalIndex l) FunctionCall
                                  [(''functionName'', VStr funcName), (''args'', VList args),
                                   (''returnValue'', result)] vars out1],
                               vars, out1)))
              else Inl (Error (sq @ funcName @ sq @ '' is not defined''))))"

text \<open>Lines 674 to 699: a \<^verbatim>\<open>for\<close> header that reaches \<^verbatim>\<open>processLine\<close>.\<close>

definition iterableOf :: "host \<Rightarrow> string \<Rightarrow> env \<Rightarrow> val" where
  "iterableOf h iterableExpr vars =
     (case safeEval h iterableExpr vars of Inr v \<Rightarrow> v | Inl err \<Rightarrow> VList [])"

definition forHeader :: "host \<Rightarrow> lineData \<Rightarrow> env \<Rightarrow> string list \<Rightarrow> error + lineResult" where
  "forHeader h l vars out =
     (case rx_match for_rx (trimmed l) of
        None \<Rightarrow> Inr ([], vars, out)
      | Some c \<Rightarrow>
          (let iterVar = capS c 1;
               iterableValue = iterableOf h (capS c 2) vars
           in if \<not> isArray iterableValue \<and> \<not> isString iterableValue
              then Inl (notIterable iterableValue)
              else Inr ([mk_step (originalIndex l) ForLoopStart
                           [(''iterVar'', VStr iterVar), (''iterable'', iterableValue)] vars out],
                        vars, out)))"

text \<open>Lines 701 to 739: the guard of an \<^verbatim>\<open>if\<close> or a \<^verbatim>\<open>while\<close>.\<close>

definition guardResult :: "host \<Rightarrow> string \<Rightarrow> env \<Rightarrow> bool" where
  "guardResult h condition vars =
     truthy (case safeEval h condition vars of Inr v \<Rightarrow> v | Inl err \<Rightarrow> VBool False)"

definition guardStep :: "host \<Rightarrow> action \<Rightarrow> nat \<Rightarrow> lineData \<Rightarrow> env \<Rightarrow> string list \<Rightarrow> step" where
  "guardStep h a n l vars out =
     (let condition = trim (slice_to_last n (trimmed l))
      in mk_step (originalIndex l) a
           [(''condition'', VStr condition), (''conditionResult'', VBool (guardResult h condition vars))]
           vars out)"

definition ifStatement :: "host \<Rightarrow> lineData \<Rightarrow> env \<Rightarrow> string list \<Rightarrow> error + lineResult" where
  "ifStatement h l vars out = Inr ([guardStep h IfStatement 3 l vars out], vars, out)"

definition whileStatement :: "host \<Rightarrow> lineData \<Rightarrow> env \<Rightarrow> string list \<Rightarrow> error + lineResult" where
  "whileStatement h l vars out = Inr ([guardStep h WhileLoopStart 6 l vars out], vars, out)"

definition executeLine :: "lineData \<Rightarrow> env \<Rightarrow> string list \<Rightarrow> error + lineResult" where
  "executeLine l vars out =
     Inr ([mk_step (originalIndex l) Execute [(''code'', VStr (trimmed l))] vars out], vars, out)"

text \<open>The body of the \<^verbatim>\<open>try\<close> (lines 228 to 749): the first test that holds decides.\<close>

definition processLine_try :: "host \<Rightarrow> lineData \<Rightarrow> env \<Rightarrow> string list \<Rightarrow> lineData list \<Rightarrow> error + lineResult" where
  "processLine_try h l vars out lines =
     (if isAssignment (trimmed l) then assignment h l vars out lines
      else if rx_test augmented_test_rx (trimmed l) then augmentedAssignment h l vars out
      else if rx_test listop_test_rx (trimmed l) then listOperation h l vars out
      else if startsWith (trimmed l) ''print('' then printStatement h l vars out
      else if startsWith (trimmed l) ''def '' then functionDefinition h l vars out
      else if rx_test standalone_test_rx (trimmed l) \<and> \<not> startsWith (trimmed l) ''print(''
        then functionCallStatement h l vars out
      else if startsWith (trimmed l) ''for '' then forHeader h l vars out
      else if startsWith (trimmed l) ''if '' then ifStatement h l vars out
      else if startsWith (trimmed l) ''while '' then whileStatement h l vars out
      else if length (trimmed l) > 0 \<and> \<not> endsWith (trimmed l) '':'' then executeLine l vars out
      else Inr ([], vars, out))"

text \<open>
  \<^verbatim>\<open>processLine\<close>: a blank line or a comment gives no step; what the \<^verbatim>\<open>try\<close> throws
  becomes one \<^verbatim>\<open>error\<close> step (lines 750 to 759). Every \<^verbatim>\<open>throw\<close> of the body comes
  before its first change of \<^verbatim>\<open>vars\<close> or \<^verbatim>\<open>out\<close>, so the step and the result carry the
  variables and the output the line was entered with.
\<close>

definition errorStep :: "lineData \<Rightarrow> error \<Rightarrow> env \<Rightarrow> string list \<Rightarrow> step" where
  "errorStep l err vars out =
     mk_step (originalIndex l) ErrorStep [(''error'', VStr (message err))] vars out"

definition isBlankOrComment :: "lineData \<Rightarrow> bool" where
  "isBlankOrComment l = (trimmed l = [] \<or> startsWith (trimmed l) ''#'')"

definition processLine :: "host \<Rightarrow> lineData \<Rightarrow> env \<Rightarrow> string list \<Rightarrow> lineData list \<Rightarrow> lineResult" where
  "processLine h l currentVars currentOutput lines =
     (if isBlankOrComment l then ([], currentVars, currentOutput)
      else (case processLine_try h l currentVars currentOutput lines of
              Inr r \<Rightarrow> r
            | Inl err \<Rightarrow> ([errorStep l err currentVars currentOutput], currentVars, currentOutput)))"

subsection \<open>\<^verbatim>\<open>parseCode\<close> (first version, lines 765 to 916)\<close>

text \<open>Lines 766 to 771: the lines of the source text.\<close>

definition lineOf :: "nat \<Rightarrow> string \<Rightarrow> lineData" where
  "lineOf i s = \<lparr>content = s, originalIndex = i, trimmed = trim s,
     indent = length s - length (trimStart s)\<rparr>"

definition sourceLines :: "string \<Rightarrow> lineData list" where
  "sourceLines codeString = map (\<lambda>p. lineOf (fst p) (snd p)) (enumerate 0 (splitOn (CHR 0x0A) codeString))"

text \<open>
  Lines 803 to 809 and 873 to 879: the block under the header at index \<open>i\<close> is the run
  of lines after it that are blank or indented deeper than \<open>ind\<close>; the index after the
  run is \<open>Suc i + length (blockOf lines i ind)\<close>, and the body is what is not blank in it.
\<close>

definition blockOf :: "lineData list \<Rightarrow> nat \<Rightarrow> nat \<Rightarrow> lineData list" where
  "blockOf lines i ind = takeWhile (\<lambda>l. trimmed l = [] \<or> indent l > ind) (drop (Suc i) lines)"

definition bodyOf :: "lineData list \<Rightarrow> nat \<Rightarrow> nat \<Rightarrow> lineData list" where
  "bodyOf lines i ind = filter (\<lambda>l. trimmed l \<noteq> []) (blockOf lines i ind)"

text \<open>Lines 842 to 847: the body of the loop, line by line.\<close>

fun bodyLines :: "host \<Rightarrow> lineData list \<Rightarrow> lineData list \<Rightarrow> env \<Rightarrow> string list \<Rightarrow> lineResult" where
  "bodyLines h lines [] vars out = ([], vars, out)"
| "bodyLines h lines (bodyLine # rest) vars out =
     (case processLine h bodyLine vars out lines of
        (steps1, vars1, out1) \<Rightarrow>
          (case bodyLines h lines rest vars1 out1 of
             (steps2, vars2, out2) \<Rightarrow> (steps1 @ steps2, vars2, out2)))"

text \<open>Lines 823 to 848: one iteration for each element, in order.\<close>

fun forIterations ::
  "host \<Rightarrow> lineData list \<Rightarrow> nat \<Rightarrow> string \<Rightarrow> lineData list \<Rightarrow> nat \<Rightarrow> nat \<Rightarrow> val list \<Rightarrow> env \<Rightarrow> string list \<Rightarrow> lineResult" where
  "forIterations h lines ln iterVar loopBody totalIterations iterIndex [] vars out = ([], vars, out)"
| "forIterations h lines ln iterVar loopBody totalIterations iterIndex (item # items) vars out =
     (let vars1 = env_set vars iterVar item;
          iteration = mk_step ln ForLoopIteration
            [(''iterVar'', VStr iterVar), (''currentValue'', item),
             (''iterationIndex'', VNum (int iterIndex)), (''totalIterations'', VNum (int totalIterations))]
            vars1 out
      in case bodyLines h lines loopBody vars1 out of
           (steps2, vars2, out2) \<Rightarrow>
             (case forIterations h lines ln iterVar loopBody totalIterations (Suc iterIndex) items vars2 out2 of
                (steps3, vars3, out3) \<Rightarrow> (iteration # steps2 @ steps3, vars3, out3)))"

text \<open>
  Lines 785 to 862: a \<^verbatim>\<open>for\<close> header at the top level. The \<^verbatim>\<open>throw\<close> of line 798
  is not inside a \<^verbatim>\<open>try\<close>: it leaves \<^verbatim>\<open>parseCode\<close>.
\<close>

definition forBlock ::
  "host \<Rightarrow> lineData list \<Rightarrow> nat \<Rightarrow> string \<Rightarrow> string \<Rightarrow> env \<Rightarrow> string list \<Rightarrow> error + lineResult" where
  "forBlock h lines i iterVar iterableExpr vars out =
     (let l = lines ! i;
          iterableValue = iterableOf h iterableExpr vars
      in if \<not> isArray iterableValue \<and> \<not> isString iterableValue
         then Inl (notIterable iterableValue)
         else
           (let loopBody = bodyOf lines i (indent l);
                start = mk_step (originalIndex l) ForLoopStart
                  [(''iterVar'', VStr iterVar), (''iterable'', iterableValue),
                   (''loopBody'', VList (map (\<lambda>b. VNum (int (originalIndex b))) loopBody))]
                  vars out
            in case forIterations h lines (originalIndex l) iterVar loopBody
                      (length (elements iterableValue)) 0 (elements iterableValue) vars out of
                 (steps, vars1, out1) \<Rightarrow>
                   Inr (start # steps @ [mk_step (originalIndex l) ForLoopEnd
                                           [(''iterVar'', VStr iterVar)] vars1 out1],
                        vars1, out1)))"

text \<open>Lines 866 to 906: a \<^verbatim>\<open>def\<close> header at the top level; the body is kept, not run.\<close>

definition defBlock ::
  "lineData list \<Rightarrow> nat \<Rightarrow> string \<Rightarrow> string \<Rightarrow> env \<Rightarrow> string list \<Rightarrow> lineResult" where
  "defBlock lines i funcName params vars out =
     (let l = lines ! i;
          functionBody = bodyOf lines i (indent l);
          func = VFun funcName (paramList params) functionBody (snapshot vars);
          vars1 = env_set vars funcName func
      in ([mk_step (originalIndex l) FunctionDefinition
             [(''functionName'', VStr funcName), (''params'', VList (map VStr (paramList params))),
              (''bodyLines'', VNum (int (length functionBody)))] vars1 out],
          vars1, out))"

text \<open>
  One round of the main loop (lines 778 to 913) at a line that is neither blank nor a
  comment: the steps it adds, the variables and the output after it, and the index the
  loop goes on with.
\<close>

definition topLevel ::
  "host \<Rightarrow> lineData list \<Rightarrow> nat \<Rightarrow> env \<Rightarrow> string list \<Rightarrow> error + (lineResult \<times> nat)" where
  "topLevel h lines i vars out =
     (let l = lines ! i
      in case (if startsWith (trimmed l) ''for '' then rx_match for_rx (trimmed l) else None) of
           Some c \<Rightarrow>
             (case forBlock h lines i (capS c 1) (capS c 2) vars out of
                Inl e \<Rightarrow> Inl e
              | Inr r \<Rightarrow> Inr (r, Suc i + length (blockOf lines i (indent l))))
         | None \<Rightarrow>
             (case (if startsWith (trimmed l) ''def '' then rx_match def_rx (trimmed l) else None) of
                Some c \<Rightarrow>
                  Inr (defBlock lines i (capS c 1) (capS c 2) vars out,
                       Suc i + length (blockOf lines i (indent l)))
              | None \<Rightarrow> Inr (processLine h l vars out lines, Suc i)))"

function mainLoop :: "host \<Rightarrow> lineData list \<Rightarrow> nat \<Rightarrow> env \<Rightarrow> string list \<Rightarrow> error + step list" where
  "mainLoop h lines i vars out =
     (if i < length lines then
        (if isBlankOrComment (lines ! i) then mainLoop h lines (Suc i) vars out
         else (case topLevel h lines i vars out of
                 Inl e \<Rightarrow> Inl e
               | Inr ((steps, vars1, out1), j) \<Rightarrow>
                   (case mainLoop h lines j vars1 out1 of
                      Inl e \<Rightarrow> Inl e
                    | Inr rest \<Rightarrow> Inr (steps @ rest))))
      else Inr [])"
  by pat_completeness auto
termination
  by (relation "measure (\<lambda>(h, lines, i, vars, out). length lines - i)")
    (auto simp: topLevel_def Let_def split: option.splits sum.splits if_splits)

declare mainLoop.simps [simp del]

definition parseCode :: "host \<Rightarrow> string \<Rightarrow> error + step list" where
  "parseCode h codeString = mainLoop h (sourceLines codeString) 0 [] []"

section \<open>The second version of the component (from line 1988 on)\<close>

subsection \<open>\<^verbatim>\<open>safeEval\<close> (second version, lines 2056 to 2096)\<close>

text \<open>
  The replacement texts \<^verbatim>\<open>'Math.floor($1/$2)'\<close> and \<^verbatim>\<open>'Math.pow($1,$2)'\<close> are used with
  regular expressions that have no capture group, so \<^verbatim>\<open>$1\<close> and \<^verbatim>\<open>$2\<close> stay as they
  are written.
\<close>

definition jsExpression2 :: "string \<Rightarrow> string" where
  "jsExpression2 expression =
     (let e = replaceAll (word_rx ''True'') (\<lambda>c. ''true'') expression;
          e = replaceAll (word_rx ''False'') (\<lambda>c. ''false'') e;
          e = replaceAll (word_rx ''None'') (\<lambda>c. ''null'') e;
          e = replaceAll (call_rx ''print'') (\<lambda>c. ''__print('') e;
          e = replaceAll (call_rx ''range'') (\<lambda>c. ''__range('') e;
          e = replaceAll (call_rx ''len'') (\<lambda>c. ''__len('') e;
          e = replaceAll not_rx (\<lambda>c. ''!'') e;
          e = replaceAll (word_rx ''and'') (\<lambda>c. ''&&'') e;
          e = replaceAll (word_rx ''or'') (\<lambda>c. ''||'') e;
          e = replaceAll (lits ''//'') (\<lambda>c. ''Math.floor($1/$2)'') e;
          e = replaceAll (lits ''**'') (\<lambda>c. ''Math.pow($1,$2)'') e;
          e = replaceAll quoted_rx (\<lambda>c. dq @ capS c 1 @ dq) e
      in e)"

definition compare_ops2 :: "string list" where
  "compare_ops2 = [''=='', ''!='', ''<='', ''>='', ''+='']"

definition isAssignment2 :: "string \<Rightarrow> bool" where
  "isAssignment2 t = (str_includes t ''='' \<and> \<not> list_ex (str_includes t) compare_ops2)"

text \<open>Lines 2080 to 2093: what the \<^verbatim>\<open>catch\<close> tries before it throws.\<close>

definition rightSideValue :: "host \<Rightarrow> string \<Rightarrow> env \<Rightarrow> val option" where
  "rightSideValue h expression vars =
     (if isAssignment2 expression then
        (case splitOn (CHR ''='') expression of
           [left, right] \<Rightarrow>
             (let rightSide = trim right
              in if env_has vars rightSide then Some (env_get vars rightSide)
                 else if \<not> isNaN h rightSide then Some (parseFloat h rightSide)
                 else if startsWith rightSide dq \<and> endsWith rightSide dq then Some (VStr (slice_to_last 1 rightSide))
                 else if startsWith rightSide sq \<and> endsWith rightSide sq then Some (VStr (slice_to_last 1 rightSide))
                 else if rightSide = ''True'' then Some (VBool True)
                 else if rightSide = ''False'' then Some (VBool False)
                 else if rightSide = ''None'' then Some VNull
                 else None)
         | _ \<Rightarrow> None)
      else None)"

definition safeEval2 :: "host \<Rightarrow> string \<Rightarrow> env \<Rightarrow> error + val" where
  "safeEval2 h expression vars =
     (case evalFunction h (jsExpression2 expression) vars of
        Inr v \<Rightarrow> Inr v
      | Inl err \<Rightarrow>
          (case rightSideValue h expression vars of
             Some v \<Rightarrow> Inr v
           | None \<Rightarrow> Inl (Error (''Error evaluating: '' @ expression @ '' - '' @ message err))))"

subsection \<open>\<^verbatim>\<open>processLine\<close> (second version, lines 2132 to 2542)\<close>

definition evalOrText2 :: "host \<Rightarrow> string \<Rightarrow> env \<Rightarrow> val" where
  "evalOrText2 h expression vars =
     (case safeEval2 h expression vars of Inr v \<Rightarrow> v | Inl err \<Rightarrow> VStr expression)"

definition assignment2 :: "host \<Rightarrow> lineData \<Rightarrow> env \<Rightarrow> string list \<Rightarrow> error + lineResult" where
  "assignment2 h l vars out =
     (let parts = splitOn (CHR ''='') (trimmed l);
          varName = trim (case parts of [] \<Rightarrow> [] | p # ps \<Rightarrow> p);
          expression = trim (joinWith ''='' (tl parts));
          value =
            (if (startsWith expression ''['' \<and> endsWith expression '']'')
                \<or> (startsWith expression ''{'' \<and> endsWith expression ''}'') then
               (case JSON_parse h (doubleQuotes expression) of Inr v \<Rightarrow> v | Inl e \<Rightarrow> VStr expression)
             else evalOrText2 h expression vars);
          oldValue = env_get vars varName;
          vars1 = env_set vars varName value
      in Inr ([mk_step (originalIndex l) (if is_undef oldValue then Assign else Reassign)
                 [(''variable'', VStr varName), (''value'', value), (''oldValue'', oldValue),
                  (''expression'', VStr expression)] vars1 out],
              vars1, out))"

definition augmentedAssignment2 :: "host \<Rightarrow> lineData \<Rightarrow> env \<Rightarrow> string list \<Rightarrow> error + lineResult" where
  "augmentedAssignment2 h l vars out =
     (case rx_match augmented_rx (trimmed l) of
        None \<Rightarrow> Inr ([], vars, out)
      | Some c \<Rightarrow>
          (let varName = capS c 1;
               operator = capS c 2;
               rightExpr = capS c 3;
               oldValue = env_get vars varName;
               rightValue = evalOrText2 h (trim rightExpr) vars;
               newValue =
                 (if operator = ''+'' then
                    (if isString oldValue \<or> isString rightValue
                     then VStr (js_String oldValue @ js_String rightValue)
                     else binop h (CHR ''+'') oldValue rightValue)
                  else if operator = ''-'' then binop h (CHR ''-'') oldValue rightValue
                  else if operator = ''*'' then binop h (CHR ''*'') oldValue rightValue
                  else if operator = ''/'' then binop h (CHR ''/'') oldValue rightValue
                  else if operator = ''%'' then binop h (CHR ''%'') oldValue rightValue
                  else VUndef);
               vars1 = env_set vars varName newValue
           in Inr ([mk_step (originalIndex l) AugmentedAssign
                      [(''variable'', VStr varName), (''operator'', VStr operator), (''value'', newValue),
                       (''oldValue'', oldValue), (''rightValue'', rightValue)] vars1 out],
                   vars1, out)))"

definition listMethod2 ::
  "host \<Rightarrow> string \<Rightarrow> string \<Rightarrow> string \<Rightarrow> val list \<Rightarrow> env \<Rightarrow> error + (val list \<times> string \<times> val)" where
  "listMethod2 h operation args listName list vars =
     (if operation = ''append'' then
        (case safeEval2 h args vars of
           Inl e \<Rightarrow> Inl e
         | Inr value \<Rightarrow>
             Inr (list @ [value], ''Appended '' @ helper_repr h value @ '' to '' @ listName, VNull))
      else if operation = ''extend'' then
        (case safeEval2 h args vars of
           Inl e \<Rightarrow> Inl e
         | Inr iterable \<Rightarrow>
             (case iterable of
                VList xs \<Rightarrow>
                  Inr (list @ xs, ''Extended '' @ listName @ '' with '' @ helper_repr h iterable, VNull)
              | _ \<Rightarrow> Inl (notIterable iterable)))
      else if operation = ''remove'' then
        (case safeEval2 h args vars of
           Inl e \<Rightarrow> Inl e
         | Inr value \<Rightarrow>
             (case indexOf list value of
                Some i \<Rightarrow>
                  Inr (take i list @ drop (Suc i) list,
                       ''Removed first occurrence of '' @ helper_repr h value @ '' from '' @ listName, VNull)
              | None \<Rightarrow> Inl (Error (''Value '' @ helper_repr h value @ '' not found in list''))))
      else if operation = ''pop'' then
        (if trim args = [] then
           (let resultValue = (if list = [] then VUndef else last list)
            in Inr (butlast list,
                    ''Popped last element ('' @ helper_repr h resultValue @ '') from '' @ listName,
                    resultValue))
         else
           (case safeEval2 h args vars of
              Inl e \<Rightarrow> Inl e
            | Inr v \<Rightarrow>
                (let index = parseInt h v;
                     s = splice_start index (length list);
                     resultValue = (if s < length list then list ! s else VUndef)
                 in Inr (take s list @ drop (Suc s) list,
                         ''Popped element at index '' @ show_index index @ '' (''
                           @ helper_repr h resultValue @ '') from '' @ listName,
                         resultValue))))
      else if operation = ''insert'' then
        (case map trim (splitOn (CHR '','') args) of
           indexStr # valueStr # more_parts \<Rightarrow>
             (case safeEval2 h indexStr vars of
                Inl e \<Rightarrow> Inl e
              | Inr iv \<Rightarrow>
                  (case safeEval2 h valueStr vars of
                     Inl e \<Rightarrow> Inl e
                   | Inr value \<Rightarrow>
                       (let index = parseInt h iv;
                            s = splice_start index (length list)
                        in Inr (take s list @ [value] @ drop s list,
                                ''Inserted '' @ helper_repr h value @ '' at index '' @ show_index index
                                  @ '' in '' @ listName,
                                VNull))))
         | [indexStr] \<Rightarrow>
             (case safeEval2 h indexStr vars of
                Inl e \<Rightarrow> Inl e
              | Inr iv \<Rightarrow>
                  Inl (Error (''Error evaluating: undefined - Cannot read properties of undefined (reading ''
                         @ sq @ ''replace'' @ sq @ '')'')))
         | [] \<Rightarrow> Inl (Error ''Error evaluating: undefined''))
      else Inr (list, [], VNull))"

definition listOperation2 :: "host \<Rightarrow> lineData \<Rightarrow> env \<Rightarrow> string list \<Rightarrow> error + lineResult" where
  "listOperation2 h l vars out =
     (case rx_match method_rx (trimmed l) of
        None \<Rightarrow> Inr ([], vars, out)
      | Some c \<Rightarrow>
          (let listName = capS c 1; operation = capS c 2; args = capS c 3
           in case env_get vars listName of
                VList oldList \<Rightarrow>
                  (case listMethod2 h operation args listName oldList vars of
                     Inl e \<Rightarrow> Inl e
                   | Inr (list, operationResult, resultValue) \<Rightarrow>
                       (let vars1 = env_set vars listName (VList list)
                        in Inr ([mk_step (originalIndex l) ListOperation
                                   [(''list'', VStr listName), (''operation'', VStr operation),
                                    (''value'', VList list), (''oldValue'', VList oldList),
                                    (''operationResult'', VStr operationResult),
                                    (''resultValue'', resultValue)] vars1 out],
                                vars1, out)))
              | v \<Rightarrow> Inl (Error (sq @ typeof v @ sq @ '' object has no attribute '' @ sq @ operation @ sq))))"

text \<open>
  Lines 2308 to 2375: the methods of a dictionary. \<^verbatim>\<open>/\w+\.(get|keys|values|items|update|pop)\(/\<close>
  is the test. An object is taken through its own properties; a key is looked up under
  its string.
\<close>

definition dictop_test_rx :: rx where
  "dictop_test_rx = seqs [rplus (One Word), lit (CHR ''.''),
     Grp 1 (alts [lits ''get'', lits ''keys'', lits ''values'', lits ''items'', lits ''update'',
       lits ''pop'']),
     lit (CHR ''('')]"

definition line_object :: "lineData \<Rightarrow> val" where
  "line_object l = VDict [(''content'', VStr (content l)), (''originalIndex'', VNum (int (originalIndex l))),
     (''trimmed'', VStr (trimmed l)), (''indent'', VNum (int (indent l)))]"

text \<open>The own enumerable properties of a value, as \<^verbatim>\<open>Object.assign\<close> and the spread read them.\<close>

fun own_props :: "val \<Rightarrow> env" where
  "own_props (VDict kvs) = kvs"
| "own_props (VFun n ps b cl) = [(''name'', VStr n), (''params'', VList (map VStr ps)),
     (''body'', VList (map line_object b)), (''closure'', VDict cl), (''isFunction'', VBool True)]"
| "own_props (VList xs) = map (\<lambda>p. (show_int (int (fst p)), snd p)) (enumerate 0 xs)"
| "own_props (VStr s) = map (\<lambda>p. (show_int (int (fst p)), VStr [snd p])) (enumerate 0 s)"
| "own_props v = []"

fun isDict :: "val \<Rightarrow> bool" where
  "isDict (VDict kvs) = True"
| "isDict (VFun n ps b cl) = True"
| "isDict v = False"

definition dictMethod ::
  "host \<Rightarrow> string \<Rightarrow> string \<Rightarrow> string \<Rightarrow> env \<Rightarrow> env \<Rightarrow> error + (env \<times> string \<times> val)" where
  "dictMethod h operation args dictName dict vars =
     (if operation = ''get'' then
        (case map trim (splitOn (CHR '','') args) of
           [] \<Rightarrow> Inl (Error ''Error evaluating: undefined'')
         | keyStr # rest \<Rightarrow>
             (case safeEval2 h keyStr vars of
                Inl e \<Rightarrow> Inl e
              | Inr key \<Rightarrow>
                  (case (if env_has dict (js_String key) then Inr (env_get dict (js_String key))
                         else (case rest of
                                 [] \<Rightarrow> Inr VNull
                               | defaultValue # more_parts \<Rightarrow>
                                   if defaultValue \<noteq> [] then safeEval2 h defaultValue vars else Inr VNull))
                   of Inl e \<Rightarrow> Inl e
                    | Inr resultValue \<Rightarrow>
                        Inr (dict, ''Got value for key '' @ helper_repr h key @ '': ''
                               @ helper_repr h resultValue, resultValue))))
      else if operation = ''keys'' then
        Inr (dict, ''Retrieved keys from '' @ dictName, VList (map (\<lambda>kv. VStr (fst kv)) dict))
      else if operation = ''values'' then
        Inr (dict, ''Retrieved values from '' @ dictName, VList (map snd dict))
      else if operation = ''items'' then
        Inr (dict, ''Retrieved items from '' @ dictName,
             VList (map (\<lambda>kv. VList [VStr (fst kv), snd kv]) dict))
      else if operation = ''update'' then
        (case safeEval2 h args vars of
           Inl e \<Rightarrow> Inl e
         | Inr newItems \<Rightarrow>
             Inr (foldl (\<lambda>d kv. env_set d (fst kv) (snd kv)) dict (own_props newItems),
                  ''Updated '' @ dictName @ '' with new items'', VNull))
      else if operation = ''pop'' then
        (case map trim (splitOn (CHR '','') args) of
           [] \<Rightarrow> Inl (Error ''Error evaluating: undefined'')
         | keyStr # rest \<Rightarrow>
             (case safeEval2 h keyStr vars of
                Inl e \<Rightarrow> Inl e
              | Inr key \<Rightarrow>
                  (if env_has dict (js_String key) then
                     (let resultValue = env_get dict (js_String key)
                      in Inr (env_delete dict (js_String key),
                              ''Popped key '' @ helper_repr h key @ '' with value ''
                                @ helper_repr h resultValue, resultValue))
                   else
                     (case (case rest of [] \<Rightarrow> [] | defaultValue # more_parts \<Rightarrow> defaultValue) of
                        [] \<Rightarrow> Inl (Error (''KeyError: '' @ helper_repr h key))
                      | ch # chs \<Rightarrow>
                          (case safeEval2 h (ch # chs) vars of
                             Inl e \<Rightarrow> Inl e
                           | Inr resultValue \<Rightarrow>
                               Inr (dict, ''Key '' @ helper_repr h key @ '' not found, returned default value ''
                                      @ helper_repr h resultValue, resultValue))))))
      else Inr (dict, [], VNull))"

definition dictOperation :: "host \<Rightarrow> lineData \<Rightarrow> env \<Rightarrow> string list \<Rightarrow> error + lineResult" where
  "dictOperation h l vars out =
     (case rx_match method_rx (trimmed l) of
        None \<Rightarrow> Inr ([], vars, out)
      | Some c \<Rightarrow>
          (let dictName = capS c 1; operation = capS c 2; args = capS c 3;
               dict = env_get vars dictName
           in if \<not> isDict dict
              then Inl (Error (sq @ typeof dict @ sq @ '' object has no attribute '' @ sq @ operation @ sq))
              else
                (case dictMethod h operation args dictName (own_props dict) vars of
                   Inl e \<Rightarrow> Inl e
                 | Inr (newDict, operationResult, resultValue) \<Rightarrow>
                     (let value = (if newDict = own_props dict then dict else VDict newDict);
                          vars1 = env_set vars dictName value
                      in Inr ([mk_step (originalIndex l) DictOperation
                                 [(''dict'', VStr dictName), (''operation'', VStr operation),
                                  (''value'', value), (''oldValue'', VDict (own_props dict)),
                                  (''operationResult'', VStr operationResult),
                                  (''resultValue'', resultValue)] vars1 out],
                              vars1, out)))))"

text \<open>Lines 2377 to 2404. \<^verbatim>\<open>/['"]/g\<close> removes the quotes of what could not be evaluated.\<close>

definition printStatement2 :: "host \<Rightarrow> lineData \<Rightarrow> env \<Rightarrow> string list \<Rightarrow> error + lineResult" where
  "printStatement2 h l vars out =
     (case rx_match print_rx (trimmed l) of
        None \<Rightarrow> Inr ([], vars, out)
      | Some c \<Rightarrow>
          (let args = capS c 1;
               printValue = (case safeEval2 h args vars of
                               Inr v \<Rightarrow> v
                             | Inl e \<Rightarrow> VStr (filter (\<lambda>ch. ch \<noteq> CHR 0x27 \<and> ch \<noteq> CHR 0x22) args));
               outputText = (case printValue of
                               VList xs \<Rightarrow> ''['' @ joinWith '', '' (map (helper_repr h) xs) @ '']''
                             | _ \<Rightarrow> helper_repr h printValue);
               out1 = out @ [outputText]
           in Inr ([mk_step (originalIndex l) Print
                      [(''value'', printValue), (''outputText'', VStr outputText)] vars out1],
                   vars, out1)))"

text \<open>Lines 2406 to 2432.\<close>

definition iterableOf2 :: "host \<Rightarrow> string \<Rightarrow> env \<Rightarrow> val" where
  "iterableOf2 h iterableExpr vars =
     (case safeEval2 h iterableExpr vars of Inr v \<Rightarrow> v | Inl err \<Rightarrow> VList [])"

definition forHeader2 :: "host \<Rightarrow> lineData \<Rightarrow> env \<Rightarrow> string list \<Rightarrow> error + lineResult" where
  "forHeader2 h l vars out =
     (case rx_match for_rx (trimmed l) of
        None \<Rightarrow> Inr ([], vars, out)
      | Some c \<Rightarrow>
          (let iterVar = capS c 1;
               iterableValue = iterableOf2 h (capS c 2) vars
           in if \<not> isArray iterableValue \<and> \<not> isString iterableValue
              then Inl (notIterable iterableValue)
              else Inr ([mk_step (originalIndex l) ForLoopStart
                           [(''iterVar'', VStr iterVar), (''iterable'', iterableValue)] vars out],
                        vars, out)))"

text \<open>Lines 2434 to 2472.\<close>

definition guardResult2 :: "host \<Rightarrow> string \<Rightarrow> env \<Rightarrow> bool" where
  "guardResult2 h condition vars =
     truthy (case safeEval2 h condition vars of Inr v \<Rightarrow> v | Inl err \<Rightarrow> VBool False)"

definition guardStep2 :: "host \<Rightarrow> action \<Rightarrow> nat \<Rightarrow> lineData \<Rightarrow> env \<Rightarrow> string list \<Rightarrow> step" where
  "guardStep2 h a n l vars out =
     (let condition = trim (slice_to_last n (trimmed l))
      in mk_step (originalIndex l) a
           [(''condition'', VStr condition), (''conditionResult'', VBool (guardResult2 h condition vars))]
           vars out)"

text \<open>Lines 2474 to 2496: the object of a \<^verbatim>\<open>def\<close> is \<^verbatim>\<open>{name, params, variables}\<close>.\<close>

definition functionDefinition2 :: "host \<Rightarrow> lineData \<Rightarrow> env \<Rightarrow> string list \<Rightarrow> error + lineResult" where
  "functionDefinition2 h l vars out =
     (case rx_match def_rx (trimmed l) of
        None \<Rightarrow> Inr ([], vars, out)
      | Some c \<Rightarrow>
          (let funcName = capS c 1;
               func = VDict [(''name'', VStr funcName),
                             (''params'', VList (map VStr (paramList (capS c 2)))),
                             (''variables'', VDict (snapshot vars))];
               vars1 = env_set vars funcName func
           in Inr ([mk_step (originalIndex l) FunctionDefinition
                      [(''functionName'', VStr funcName)] vars1 out],
                   vars1, out)))"

text \<open>Lines 2498 to 2519: a call is recorded, not run.\<close>

definition evalTrimmedArg2 :: "host \<Rightarrow> env \<Rightarrow> string \<Rightarrow> error + val" where
  "evalTrimmedArg2 h vars arg = safeEval2 h (trim arg) vars"

definition functionCallStatement2 :: "host \<Rightarrow> lineData \<Rightarrow> env \<Rightarrow> string list \<Rightarrow> error + lineResult" where
  "functionCallStatement2 h l vars out =
     (case rx_match call_match_rx (trimmed l) of
        None \<Rightarrow> Inr ([], vars, out)
      | Some c \<Rightarrow>
          (let funcName = capS c 1; args = capS c 2; func = env_get vars funcName
           in if typeof func \<noteq> ''object'' \<or> func = VNull
              then Inl (Error (sq @ funcName @ sq @ '' is not defined''))
              else
                (case sequenceE (map (evalTrimmedArg2 h vars) (splitOn (CHR '','') args)) of
                   Inl e \<Rightarrow> Inl e
                 | Inr argValues \<Rightarrow>
                     Inr ([mk_step (originalIndex l) FunctionCall
                             [(''functionName'', VStr funcName), (''args'', VList argValues)] vars out],
                          vars, out))))"

definition processLine2_try :: "host \<Rightarrow> lineData \<Rightarrow> env \<Rightarrow> string list \<Rightarrow> error + lineResult" where
  "processLine2_try h l vars out =
     (if isAssignment2 (trimmed l) then assignment2 h l vars out
      else if rx_test augmented_test_rx (trimmed l) then augmentedAssignment2 h l vars out
      else if rx_test listop_test_rx (trimmed l) then listOperation2 h l vars out
      else if rx_test dictop_test_rx (trimmed l) then dictOperation h l vars out
      else if startsWith (trimmed l) ''print('' then printStatement2 h l vars out
      else if startsWith (trimmed l) ''for '' then forHeader2 h l vars out
      else if startsWith (trimmed l) ''if '' then Inr ([guardStep2 h IfStatement 3 l vars out], vars, out)
      else if startsWith (trimmed l) ''while '' then Inr ([guardStep2 h WhileLoopStart 6 l vars out], vars, out)
      else if startsWith (trimmed l) ''def '' then functionDefinition2 h l vars out
      else if rx_test call_test_rx (trimmed l) \<and> \<not> startsWith (trimmed l) ''print(''
        then functionCallStatement2 h l vars out
      else if length (trimmed l) > 0 \<and> \<not> endsWith (trimmed l) '':'' then executeLine l vars out
      else Inr ([], vars, out))"

definition processLine2 :: "host \<Rightarrow> lineData \<Rightarrow> env \<Rightarrow> string list \<Rightarrow> lineResult" where
  "processLine2 h l currentVars currentOutput =
     (if isBlankOrComment l then ([], currentVars, currentOutput)
      else (case processLine2_try h l currentVars currentOutput of
              Inr r \<Rightarrow> r
            | Inl err \<Rightarrow> ([errorStep l err currentVars currentOutput], currentVars, currentOutput)))"

subsection \<open>\<^verbatim>\<open>parseCode\<close> (second version, lines 2099 to 2666)\<close>

text \<open>
  Lines 2571 to 2574 and the loop of \<^verbatim>\<open>processBlock\<close> (lines 2120 to 2126): here the
  block under a header is the run of lines indented deeper than the header, and a blank
  line, whose indentation is 0, ends it.
\<close>

definition blockOf2 :: "lineData list \<Rightarrow> nat \<Rightarrow> nat \<Rightarrow> lineData list" where
  "blockOf2 lines i ind = takeWhile (\<lambda>l. indent l > ind) (drop (Suc i) lines)"

fun bodyLines2 :: "host \<Rightarrow> lineData list \<Rightarrow> env \<Rightarrow> string list \<Rightarrow> lineResult" where
  "bodyLines2 h [] vars out = ([], vars, out)"
| "bodyLines2 h (bodyLine # rest) vars out =
     (case processLine2 h bodyLine vars out of
        (steps1, vars1, out1) \<Rightarrow>
          (case bodyLines2 h rest vars1 out1 of
             (steps2, vars2, out2) \<Rightarrow> (steps1 @ steps2, vars2, out2)))"

fun forIterations2 ::
  "host \<Rightarrow> nat \<Rightarrow> string \<Rightarrow> lineData list \<Rightarrow> nat \<Rightarrow> nat \<Rightarrow> val list \<Rightarrow> env \<Rightarrow> string list \<Rightarrow> lineResult" where
  "forIterations2 h ln iterVar loopBody totalIterations iterIndex [] vars out = ([], vars, out)"
| "forIterations2 h ln iterVar loopBody totalIterations iterIndex (item # items) vars out =
     (let vars1 = env_set vars iterVar item;
          iteration = mk_step ln ForLoopIteration
            [(''iterVar'', VStr iterVar), (''currentValue'', item),
             (''iterationIndex'', VNum (int iterIndex)), (''totalIterations'', VNum (int totalIterations))]
            vars1 out
      in case bodyLines2 h loopBody vars1 out of
           (steps2, vars2, out2) \<Rightarrow>
             (case forIterations2 h ln iterVar loopBody totalIterations (Suc iterIndex) items vars2 out2 of
                (steps3, vars3, out3) \<Rightarrow> (iteration # steps2 @ steps3, vars3, out3)))"

definition forBlock2 ::
  "host \<Rightarrow> lineData list \<Rightarrow> nat \<Rightarrow> string \<Rightarrow> string \<Rightarrow> env \<Rightarrow> string list \<Rightarrow> error + lineResult" where
  "forBlock2 h lines i iterVar iterableExpr vars out =
     (let l = lines ! i;
          iterableValue = iterableOf2 h iterableExpr vars
      in if \<not> isArray iterableValue \<and> \<not> isString iterableValue
         then Inl (notIterable iterableValue)
         else
           (let loopBody = blockOf2 lines i (indent l);
                start = mk_step (originalIndex l) ForLoopStart
                  [(''iterVar'', VStr iterVar), (''iterable'', iterableValue),
                   (''loopBody'', VList (map (\<lambda>b. VNum (int (originalIndex b))) loopBody))]
                  vars out
            in case forIterations2 h (originalIndex l) iterVar loopBody
                      (length (elements iterableValue)) 0 (elements iterableValue) vars out of
                 (steps, vars1, out1) \<Rightarrow>
                   Inr (start # steps @ [mk_step (originalIndex l) ForLoopEnd
                                           [(''iterVar'', VStr iterVar)] vars1 out1],
                        vars1, out1)))"

text \<open>Lines 2631 to 2656: any other line that ends with a colon.\<close>

definition controlStructure :: "host \<Rightarrow> lineData list \<Rightarrow> nat \<Rightarrow> env \<Rightarrow> string list \<Rightarrow> lineResult" where
  "controlStructure h lines i vars out =
     (let l = lines ! i
      in case bodyLines2 h (blockOf2 lines i (indent l)) vars out of
           (blockSteps, vars1, out1) \<Rightarrow>
             (mk_step (originalIndex l) ControlStructureStart [(''code'', VStr (trimmed l))] vars out
                # blockSteps
                @ [mk_step (originalIndex l) ControlStructureEnd [(''code'', VStr (trimmed l))] vars1 out1],
              vars1, out1))"

definition topLevel2 ::
  "host \<Rightarrow> lineData list \<Rightarrow> nat \<Rightarrow> env \<Rightarrow> string list \<Rightarrow> error + (lineResult \<times> nat)" where
  "topLevel2 h lines i vars out =
     (let l = lines ! i
      in case (if startsWith (trimmed l) ''for '' then rx_match for_rx (trimmed l) else None) of
           Some c \<Rightarrow>
             (case forBlock2 h lines i (capS c 1) (capS c 2) vars out of
                Inl e \<Rightarrow> Inl e
              | Inr r \<Rightarrow> Inr (r, Suc i + length (blockOf2 lines i (indent l))))
         | None \<Rightarrow>
             (if endsWith (trimmed l) '':'' then
                Inr (controlStructure h lines i vars out, Suc i + length (blockOf2 lines i (indent l)))
              else Inr (processLine2 h l vars out, Suc i)))"

function mainLoop2 :: "host \<Rightarrow> lineData list \<Rightarrow> nat \<Rightarrow> env \<Rightarrow> string list \<Rightarrow> error + step list" where
  "mainLoop2 h lines i vars out =
     (if i < length lines then
        (if isBlankOrComment (lines ! i) then mainLoop2 h lines (Suc i) vars out
         else (case topLevel2 h lines i vars out of
                 Inl e \<Rightarrow> Inl e
               | Inr ((steps, vars1, out1), j) \<Rightarrow>
                   (case mainLoop2 h lines j vars1 out1 of
                      Inl e \<Rightarrow> Inl e
                    | Inr rest \<Rightarrow> Inr (steps @ rest))))
      else Inr [])"
  by pat_completeness auto
termination
  by (relation "measure (\<lambda>(h, lines, i, vars, out). length lines - i)")
    (auto simp: topLevel2_def Let_def split: option.splits sum.splits if_splits)

declare mainLoop2.simps [simp del]

definition parseCode2 :: "host \<Rightarrow> string \<Rightarrow> error + step list" where
  "parseCode2 h codeString = mainLoop2 h (sourceLines codeString) 0 [] []"

section \<open>Notions used in the statements\<close>

definition nl :: string where
  "nl = [CHR 0x0A]"

text \<open>
  A line reaches the \<^verbatim>\<open>if\<close> or the \<^verbatim>\<open>while\<close> case of \<^verbatim>\<open>processLine\<close> when it is
  neither blank nor a comment, starts with \<^verbatim>\<open>if \<close> or \<^verbatim>\<open>while \<close>, and none of the
  tests that come first in the chain takes it.
\<close>

definition reachesGuard :: "lineData \<Rightarrow> bool" where
  "reachesGuard l = (\<not> isBlankOrComment l
     \<and> \<not> isAssignment (trimmed l)
     \<and> \<not> rx_test augmented_test_rx (trimmed l)
     \<and> \<not> rx_test listop_test_rx (trimmed l)
     \<and> \<not> rx_test standalone_test_rx (trimmed l)
     \<and> (startsWith (trimmed l) ''if '' \<or> startsWith (trimmed l) ''while ''))"

definition guardStepOf :: "host \<Rightarrow> lineData \<Rightarrow> env \<Rightarrow> string list \<Rightarrow> step" where
  "guardStepOf h l vars out =
     (if startsWith (trimmed l) ''if '' then guardStep h IfStatement 3 l vars out
      else guardStep h WhileLoopStart 6 l vars out)"

text \<open>A line that the main loop of \<^verbatim>\<open>parseCode\<close> hands to \<^verbatim>\<open>processLine\<close>.\<close>

definition plainLine :: "lineData \<Rightarrow> bool" where
  "plainLine l =
     ((if startsWith (trimmed l) ''for '' then rx_match for_rx (trimmed l) else None) = None
      \<and> (if startsWith (trimmed l) ''def '' then rx_match def_rx (trimmed l) else None) = None)"

section \<open>The snapshots of the steps in a store\<close>




text \<open>A value in the store is a primitive value or the address of a cell.\<close>

datatype hval = HUndef | HNull | HBool bool | HNum int | HStr string | HRef nat

datatype cell = CArr "hval list" | CObj "string list" "hval list"

type_synonym store = "cell list"

fun cell_refs :: "cell \<Rightarrow> hval list" where
  "cell_refs (CArr hs) = hs"
| "cell_refs (CObj ks hs) = hs"




text \<open>The cells that can be reached from a value of the store.\<close>

inductive_set reachable :: "store \<Rightarrow> hval \<Rightarrow> nat set" for st :: store and h :: hval where
  root: "h = HRef a \<Longrightarrow> a \<in> reachable st h"
| step: "a \<in> reachable st h \<Longrightarrow> a < length st \<Longrightarrow> HRef b \<in> set (cell_refs (st ! a))
     \<Longrightarrow> b \<in> reachable st h"


text \<open>
  A part of the store from \<open>lo\<close> up to \<open>hi\<close> is closed when its cells refer to cells of
  the same part only.
\<close>

definition in_part :: "nat \<Rightarrow> nat \<Rightarrow> hval \<Rightarrow> bool" where
  "in_part lo hi h = (case h of HRef b \<Rightarrow> lo \<le> b \<and> b < hi | _ \<Rightarrow> True)"

definition closed_part :: "nat \<Rightarrow> nat \<Rightarrow> store \<Rightarrow> bool" where
  "closed_part lo hi st =
     (hi \<le> length st \<and> list_all (\<lambda>a. list_all (in_part lo hi) (cell_refs (st ! a))) [lo..<hi])"

section \<open>Theorems\<close>

subsection \<open>Expression evaluation\<close>

lemma jsExpression_floor_division: "jsExpression ''7 // 2'' = ''7 Math.floor 2''"
  by code_simp

lemma jsExpression_power: "jsExpression ''2 ** 10'' = ''Math.pow(2, 10)''"
  by code_simp

lemma safeEval_floor_division_any_host:
  "safeEval h ''7 // 2'' vars =
     (case evalFunction h ''7 Math.floor 2'' vars of
        Inr v \<Rightarrow> Inr v
      | Inl err \<Rightarrow> Inl (Error (''Error evaluating: 7 // 2 - '' @ message err)))"
  by (simp add: safeEval_def jsExpression_floor_division split: sum.splits)

text \<open>
  Claim C3: the expression evaluator computes floor division and exponentiation;
  \<^verbatim>\<open>7 // 2\<close> evaluates to 3 and \<^verbatim>\<open>2 ** 10\<close> to 1024.

  The second half holds: \<^verbatim>\<open>2 ** 10\<close> is rewritten to \<^verbatim>\<open>Math.pow(2, 10)\<close> and evaluates
  to 1024. The first half fails: line 82 replaces \<^verbatim>\<open>//\<close> by the bare name
  \<^verbatim>\<open>Math.floor\<close>, so the runtime is handed \<^verbatim>\<open>7 Math.floor 2\<close>, which is not an
  expression, and \<^verbatim>\<open>safeEval\<close> throws instead of returning 3.
\<close>

theorem safeEval_floor_division_throws:
  "safeEval js_host ''7 // 2'' [] =
     Inl (Error (''Error evaluating: 7 // 2 - Unexpected identifier '' @ sq @ ''Math'' @ sq))
   \<and> safeEval js_host ''2 ** 10'' [] = Inr (VNum 1024)"
  by code_simp

subsection \<open>Loops\<close>

text \<open>
  Claim C4: for the source \<^verbatim>\<open>for n in range(3):\<close> with the body \<^verbatim>\<open>print(n)\<close> the trace
  is one \<^verbatim>\<open>for_loop_start\<close> step, then three pairs of a \<^verbatim>\<open>for_loop_iteration\<close> step
  and a \<^verbatim>\<open>print\<close> step with \<^verbatim>\<open>n\<close> bound to 0, 1, 2 in this order and
  \<^verbatim>\<open>totalIterations\<close> equal to 3, then one \<^verbatim>\<open>for_loop_end\<close> step; the output of the
  last step is \<^verbatim>\<open>["0", "1", "2"]\<close>. The theorem gives the whole trace.
\<close>

theorem parseCode_unrolls_range_loop:
  "parseCode js_host (''for n in range(3):'' @ [CHR 0x0A] @ ''    print(n)'') =
     Inr [\<lparr>line = 0, action = ForLoopStart,
            info = [(''iterVar'', VStr ''n''), (''iterable'', VList [VNum 0, VNum 1, VNum 2]),
                    (''loopBody'', VList [VNum 1])],
            variables = [], outputLines = []\<rparr>,
          \<lparr>line = 0, action = ForLoopIteration,
            info = [(''iterVar'', VStr ''n''), (''currentValue'', VNum 0),
                    (''iterationIndex'', VNum 0), (''totalIterations'', VNum 3)],
            variables = [(''n'', VNum 0)], outputLines = []\<rparr>,
          \<lparr>line = 1, action = Print,
            info = [(''value'', VList [VNum 0]), (''outputText'', VStr ''0'')],
            variables = [(''n'', VNum 0)], outputLines = [''0'']\<rparr>,
          \<lparr>line = 0, action = ForLoopIteration,
            info = [(''iterVar'', VStr ''n''), (''currentValue'', VNum 1),
                    (''iterationIndex'', VNum 1), (''totalIterations'', VNum 3)],
            variables = [(''n'', VNum 1)], outputLines = [''0'']\<rparr>,
          \<lparr>line = 1, action = Print,
            info = [(''value'', VList [VNum 1]), (''outputText'', VStr ''1'')],
            variables = [(''n'', VNum 1)], outputLines = [''0'', ''1'']\<rparr>,
          \<lparr>line = 0, action = ForLoopIteration,
            info = [(''iterVar'', VStr ''n''), (''currentValue'', VNum 2),
                    (''iterationIndex'', VNum 2), (''totalIterations'', VNum 3)],
            variables = [(''n'', VNum 2)], outputLines = [''0'', ''1'']\<rparr>,
          \<lparr>line = 1, action = Print,
            info = [(''value'', VList [VNum 2]), (''outputText'', VStr ''2'')],
            variables = [(''n'', VNum 2)], outputLines = [''0'', ''1'', ''2'']\<rparr>,
          \<lparr>line = 0, action = ForLoopEnd, info = [(''iterVar'', VStr ''n'')],
            variables = [(''n'', VNum 2)], outputLines = [''0'', ''1'', ''2'']\<rparr>]"
  by code_simp

subsection \<open>Auxiliary facts\<close>


lemma startsWith_iff: "startsWith s p \<longleftrightarrow> (\<exists>r. s = p @ r)"
  unfolding startsWith_def by (metis append_eq_conv_conj append_take_drop_id)

subsection \<open>Failures at the top level\<close>

text \<open>
  Claim C1: every failure raised while one logical line is evaluated or executed,
  a \<^verbatim>\<open>TypeError\<close> from a \<^verbatim>\<open>for\<close> header that is not iterable included, is caught at
  that line and becomes exactly one \<^verbatim>\<open>error\<close> step; the trace goes on with the next
  line, and no such failure aborts the whole trace.

  \<^verbatim>\<open>processLine\<close> does this for the lines it gets, and so the \<^verbatim>\<open>for\<close> header of a
  nested loop becomes an \<^verbatim>\<open>error\<close> step (lines 686 to 688 stand inside the
  \<^verbatim>\<open>try\<close>). The \<^verbatim>\<open>for\<close> header at the top level is handled by \<^verbatim>\<open>parseCode\<close> itself,
  where the same \<^verbatim>\<open>throw\<close> (line 798) stands outside every \<^verbatim>\<open>try\<close>: it leaves
  \<^verbatim>\<open>parseCode\<close>, and the steps made so far are lost with it. Below, the first line
  has printed before the header throws, and the result is the error alone.
\<close>

theorem parseCode_aborts_on_non_iterable_for:
  "parseCode js_host (''print(1)'' @ nl @ ''for x in 5:'' @ nl @ ''    print(x)'' @ nl @ ''print(2)'') =
     Inl (Error (sq @ ''number'' @ sq @ '' object is not iterable''))"
  by code_simp

text \<open>
  Claim C10: a \<^verbatim>\<open>for\<close> header at the top level whose iterable expression fails to
  evaluate is given the empty iterable: the trace gets a \<^verbatim>\<open>for_loop_start\<close> step with
  an empty iterable and a \<^verbatim>\<open>for_loop_end\<close> step, no iteration and no \<^verbatim>\<open>error\<close> step,
  and goes on behind the block of the loop with the variables and the output unchanged.
\<close>

theorem for_header_failure_swallowed:
  assumes "i < length lines"
      and "\<not> isBlankOrComment (lines ! i)"
      and "startsWith (trimmed (lines ! i)) ''for ''"
      and "rx_match for_rx (trimmed (lines ! i)) = Some c"
      and "safeEval h (capS c 2) vars = Inl err"
  shows "mainLoop h lines i vars out =
     (case mainLoop h lines (Suc i + length (blockOf lines i (indent (lines ! i)))) vars out of
        Inl e \<Rightarrow> Inl e
      | Inr rest \<Rightarrow>
          Inr (mk_step (originalIndex (lines ! i)) ForLoopStart
                 [(''iterVar'', VStr (capS c 1)), (''iterable'', VList []),
                  (''loopBody'', VList (map (\<lambda>b. VNum (int (originalIndex b)))
                     (bodyOf lines i (indent (lines ! i)))))] vars out
               # mk_step (originalIndex (lines ! i)) ForLoopEnd [(''iterVar'', VStr (capS c 1))] vars out
               # rest))"
  using assms
  by (subst mainLoop.simps)
     (simp add: topLevel_def forBlock_def iterableOf_def Let_def split: sum.splits)

text \<open>The witness: \<^verbatim>\<open>ys\<close> is not defined.\<close>

theorem for_header_failure_swallowed_witness:
  "safeEval js_host ''ys'' [] = Inl (Error ''Error evaluating: ys - ys is not defined'')
   \<and> parseCode js_host (''for x in ys:'' @ nl @ ''    print(x)'' @ nl @ ''print(1)'') =
     Inr [\<lparr>line = 0, action = ForLoopStart,
            info = [(''iterVar'', VStr ''x''), (''iterable'', VList []), (''loopBody'', VList [VNum 1])],
            variables = [], outputLines = []\<rparr>,
          \<lparr>line = 0, action = ForLoopEnd, info = [(''iterVar'', VStr ''x'')],
            variables = [], outputLines = []\<rparr>,
          \<lparr>line = 2, action = Print,
            info = [(''value'', VList [VNum 1]), (''outputText'', VStr ''1'')],
            variables = [], outputLines = [''1'']\<rparr>]"
proof -
  let ?lines = "sourceLines (''for x in ys:'' @ nl @ ''    print(x)'' @ nl @ ''print(1)'')"
  let ?c = "[(2, ''ys''), (1, ''x'')]"
  have h1: "0 < length ?lines" by code_simp
  have h2: "\<not> isBlankOrComment (?lines ! 0)" by code_simp
  have h3: "startsWith (trimmed (?lines ! 0)) ''for ''" by code_simp
  have h4: "rx_match for_rx (trimmed (?lines ! 0)) = Some ?c" by code_simp
  have e: "safeEval js_host ''ys'' [] = Inl (Error ''Error evaluating: ys - ys is not defined'')"
    by code_simp
  have h5: "safeEval js_host (capS ?c 2) [] = Inl (Error ''Error evaluating: ys - ys is not defined'')"
    by code_simp
  have rest: "mainLoop js_host ?lines (Suc 0 + length (blockOf ?lines 0 (indent (?lines ! 0)))) [] [] =
     Inr [\<lparr>line = 2, action = Print,
            info = [(''value'', VList [VNum 1]), (''outputText'', VStr ''1'')],
            variables = [], outputLines = [''1'']\<rparr>]"
    by code_simp
  have s1: "mk_step (originalIndex (?lines ! 0)) ForLoopStart
                 [(''iterVar'', VStr (capS ?c 1)), (''iterable'', VList []),
                  (''loopBody'', VList (map (\<lambda>b. VNum (int (originalIndex b)))
                     (bodyOf ?lines 0 (indent (?lines ! 0)))))] [] [] =
     \<lparr>line = 0, action = ForLoopStart,
            info = [(''iterVar'', VStr ''x''), (''iterable'', VList []), (''loopBody'', VList [VNum 1])],
            variables = [], outputLines = []\<rparr>"
    by code_simp
  have s2: "mk_step (originalIndex (?lines ! 0)) ForLoopEnd [(''iterVar'', VStr (capS ?c 1))] [] [] =
     \<lparr>line = 0, action = ForLoopEnd, info = [(''iterVar'', VStr ''x'')],
            variables = [], outputLines = []\<rparr>"
    by code_simp
  have "mainLoop js_host ?lines 0 [] [] =
     Inr [\<lparr>line = 0, action = ForLoopStart,
            info = [(''iterVar'', VStr ''x''), (''iterable'', VList []), (''loopBody'', VList [VNum 1])],
            variables = [], outputLines = []\<rparr>,
          \<lparr>line = 0, action = ForLoopEnd, info = [(''iterVar'', VStr ''x'')],
            variables = [], outputLines = []\<rparr>,
          \<lparr>line = 2, action = Print,
            info = [(''value'', VList [VNum 1]), (''outputText'', VStr ''1'')],
            variables = [], outputLines = [''1'']\<rparr>]"
    unfolding for_header_failure_swallowed[OF h1 h2 h3 h4 h5, of "[]"] rest s1 s2 by simp
  with e show ?thesis by (simp add: parseCode_def)
qed

text \<open>
  The main loop of the second version (lines 2552 to 2629) has the same \<^verbatim>\<open>try\<close> around
  the evaluation of the iterable, and gives the same two steps.
\<close>

lemma second_version_skips_failed_iterable:
  assumes "i < length lines"
      and "\<not> isBlankOrComment (lines ! i)"
      and "startsWith (trimmed (lines ! i)) ''for ''"
      and "rx_match for_rx (trimmed (lines ! i)) = Some c"
      and "safeEval2 h (capS c 2) vars = Inl err"
  shows "mainLoop2 h lines i vars out =
     (case mainLoop2 h lines (Suc i + length (blockOf2 lines i (indent (lines ! i)))) vars out of
        Inl e \<Rightarrow> Inl e
      | Inr rest \<Rightarrow>
          Inr (mk_step (originalIndex (lines ! i)) ForLoopStart
                 [(''iterVar'', VStr (capS c 1)), (''iterable'', VList []),
                  (''loopBody'', VList (map (\<lambda>b. VNum (int (originalIndex b)))
                     (blockOf2 lines i (indent (lines ! i)))))] vars out
               # mk_step (originalIndex (lines ! i)) ForLoopEnd [(''iterVar'', VStr (capS c 1))] vars out
               # rest))"
  using assms
  by (subst mainLoop2.simps)
     (simp add: topLevel2_def forBlock2_def iterableOf2_def Let_def split: sum.splits)

subsection \<open>Assignments\<close>

text \<open>
  Claim C2, as it is written: for the two-line source whose second line is
  \<^verbatim>\<open>y = z + 1\<close> with \<^verbatim>\<open>z\<close> unbound the trace has an \<^verbatim>\<open>error\<close> step for that line,
  and no binding for \<^verbatim>\<open>y\<close> is made. The code does otherwise: the failure of
  \<^verbatim>\<open>safeEval\<close> is caught inside the assignment (lines 356 to 375), and what could not
  be evaluated is kept as a string.
\<close>

theorem undefined_name_counterexample:
  "parseCode js_host (''x = 5'' @ nl @ ''y = z + 1'') =
     Inr [\<lparr>line = 0, action = Assign,
            info = [(''variable'', VStr ''x''), (''value'', VNum 5), (''oldValue'', VUndef),
                    (''expression'', VStr ''5'')],
            variables = [(''x'', VNum 5)], outputLines = []\<rparr>,
          \<lparr>line = 1, action = Assign,
            info = [(''variable'', VStr ''y''), (''value'', VStr ''z + 1''), (''oldValue'', VUndef),
                    (''expression'', VStr ''z + 1'')],
            variables = [(''x'', VNum 5), (''y'', VStr ''z + 1'')], outputLines = []\<rparr>]"
  by code_simp

lemma assign_text_facts:
  "isAssignment ''y = z + 1''"
  "trim (case splitOn (CHR ''='') ''y = z + 1'' of [] \<Rightarrow> [] | p # ps \<Rightarrow> p) = ''y''"
  "trim (joinWith ''='' (tl (splitOn (CHR ''='') ''y = z + 1''))) = ''z + 1''"
  "rx_test listcomp_test_rx ''z + 1'' = False"
  "rx_test call_test_rx ''z + 1'' = False"
  "startsWith ''z + 1'' ''{'' = False" "startsWith ''z + 1'' ''['' = False"
  "startsWith ''z + 1'' dq = False" "startsWith ''z + 1'' sq = False"
  "startsWith ''y = z + 1'' ''#'' = False"
  by code_simp+

text \<open>
  Claim C2, amended: whenever the evaluation of \<^verbatim>\<open>z + 1\<close> fails, the line
  \<^verbatim>\<open>y = z + 1\<close> gives exactly one step, an \<^verbatim>\<open>assign\<close> step (\<^verbatim>\<open>reassign\<close> when \<^verbatim>\<open>y\<close>
  was bound) and no \<^verbatim>\<open>error\<close> step; it binds \<^verbatim>\<open>y\<close> to the text \<^verbatim>\<open>z + 1\<close> as a
  string and leaves every other variable and the output as they were.
\<close>

theorem failed_assignment_binds_expression_text:
  assumes "trimmed l = ''y = z + 1''"
      and "safeEval h ''z + 1'' vars = Inl err"
      and "isNaN h ''z + 1''"
  shows "processLine h l vars out lines =
     ([mk_step (originalIndex l) (if is_undef (env_get vars ''y'') then Assign else Reassign)
         [(''variable'', VStr ''y''), (''value'', VStr ''z + 1''), (''oldValue'', env_get vars ''y''),
          (''expression'', VStr ''z + 1'')]
         (env_set vars ''y'' (VStr ''z + 1'')) out],
      env_set vars ''y'' (VStr ''z + 1''), out)"
proof -
  have p: "plainValue h ''z + 1'' vars = VStr ''z + 1''"
    unfolding plainValue_def assms(2) using assms(3)
    by (simp add: assign_text_facts)
  have a: "assignedValue h lines (originalIndex l) ''z + 1'' vars out = Inr (VStr ''z + 1'', out)"
    unfolding assignedValue_def assign_text_facts p by simp
  have b: "assignment h l vars out lines =
     Inr ([mk_step (originalIndex l) (if is_undef (env_get vars ''y'') then Assign else Reassign)
         [(''variable'', VStr ''y''), (''value'', VStr ''z + 1''), (''oldValue'', env_get vars ''y''),
          (''expression'', VStr ''z + 1'')]
         (env_set vars ''y'' (VStr ''z + 1'')) out],
      env_set vars ''y'' (VStr ''z + 1''), out)"
    unfolding assignment_def Let_def assms(1) assign_text_facts a by simp
  have c: "\<not> isBlankOrComment l"
    unfolding isBlankOrComment_def assms(1) assign_text_facts by simp
  show ?thesis
    unfolding processLine_def processLine_try_def assms(1) using c
    by (simp add: assign_text_facts(1) b)
qed

text \<open>The witness: the second line of the source above, after \<^verbatim>\<open>x = 5\<close>.\<close>

theorem failed_assignment_binds_expression_text_witness:
  "safeEval js_host ''z + 1'' [(''x'', VNum 5)] = Inl (Error ''Error evaluating: z + 1 - z is not defined'')
   \<and> isNaN js_host ''z + 1''
   \<and> processLine js_host (lineOf 1 ''y = z + 1'') [(''x'', VNum 5)] [] [] =
       ([\<lparr>line = 1, action = Assign,
           info = [(''variable'', VStr ''y''), (''value'', VStr ''z + 1''), (''oldValue'', VUndef),
                   (''expression'', VStr ''z + 1'')],
           variables = [(''x'', VNum 5), (''y'', VStr ''z + 1'')], outputLines = []\<rparr>],
        [(''x'', VNum 5), (''y'', VStr ''z + 1'')], [])"
proof -
  have h1: "trimmed (lineOf 1 ''y = z + 1'') = ''y = z + 1''" by code_simp
  have h2: "safeEval js_host ''z + 1'' [(''x'', VNum 5)] =
      Inl (Error ''Error evaluating: z + 1 - z is not defined'')" by code_simp
  have h3: "isNaN js_host ''z + 1''" by code_simp
  have r: "([mk_step (originalIndex (lineOf 1 ''y = z + 1''))
           (if is_undef (env_get [(''x'', VNum 5)] ''y'') then Assign else Reassign)
           [(''variable'', VStr ''y''), (''value'', VStr ''z + 1''),
            (''oldValue'', env_get [(''x'', VNum 5)] ''y''), (''expression'', VStr ''z + 1'')]
           (env_set [(''x'', VNum 5)] ''y'' (VStr ''z + 1'')) []],
        env_set [(''x'', VNum 5)] ''y'' (VStr ''z + 1''), [] :: string list) =
       ([\<lparr>line = 1, action = Assign,
           info = [(''variable'', VStr ''y''), (''value'', VStr ''z + 1''), (''oldValue'', VUndef),
                   (''expression'', VStr ''z + 1'')],
           variables = [(''x'', VNum 5), (''y'', VStr ''z + 1'')], outputLines = []\<rparr>],
        [(''x'', VNum 5), (''y'', VStr ''z + 1'')], [])"
    by code_simp
  from failed_assignment_binds_expression_text[OF h1 h2 h3, of "[]" "[]"] r h2 h3 show ?thesis
    by simp
qed

subsection \<open>Guards\<close>

text \<open>
  Claim C5, as it is written: every \<^verbatim>\<open>if\<close> or \<^verbatim>\<open>while\<close> header gives a single
  \<^verbatim>\<open>if_statement\<close> or \<^verbatim>\<open>while_loop_start\<close> step, and the lines of its body are then
  visited exactly once each. Two sources show where the code does otherwise. In the
  first the header contains \<^verbatim>\<open>.count(\<close>, so the test for list methods, which comes
  before the test for \<^verbatim>\<open>if\<close>, takes the line: the trace has a \<^verbatim>\<open>list_operation\<close> step
  and no \<^verbatim>\<open>if_statement\<close> step. In the second the body of the \<^verbatim>\<open>if\<close> holds a
  \<^verbatim>\<open>for\<close> loop, which the main loop unrolls: the line \<^verbatim>\<open>print(n)\<close> is visited twice.
\<close>

theorem guard_header_counterexample:
  "parseCode js_host (''nums = [1, 2]'' @ nl @ ''if nums.count(1) > 0:'' @ nl @ ''    print(1)'') =
     Inr [\<lparr>line = 0, action = Assign,
            info = [(''variable'', VStr ''nums''), (''value'', VList [VNum 1, VNum 2]),
                    (''oldValue'', VUndef), (''expression'', VStr ''[1, 2]'')],
            variables = [(''nums'', VList [VNum 1, VNum 2])], outputLines = []\<rparr>,
          \<lparr>line = 1, action = ListOperation,
            info = [(''list'', VStr ''nums''), (''operation'', VStr ''count''),
                    (''value'', VList [VNum 1, VNum 2]), (''oldValue'', VList [VNum 1, VNum 2]),
                    (''operationResult'', VStr []), (''resultValue'', VNull)],
            variables = [(''nums'', VList [VNum 1, VNum 2])], outputLines = []\<rparr>,
          \<lparr>line = 2, action = Print,
            info = [(''value'', VList [VNum 1]), (''outputText'', VStr ''1'')],
            variables = [(''nums'', VList [VNum 1, VNum 2])], outputLines = [''1'']\<rparr>]
   \<and> map (\<lambda>s. (line s, action s))
         (case parseCode js_host (''if 1:'' @ nl @ ''    for n in range(2):'' @ nl @ ''        print(n)'') of
            Inl e \<Rightarrow> [] | Inr steps \<Rightarrow> steps) =
       [(0, IfStatement), (1, ForLoopStart), (1, ForLoopIteration), (2, Print),
        (1, ForLoopIteration), (2, Print), (1, ForLoopEnd)]"
  by code_simp

lemma guard_not_others:
  assumes "startsWith t ''if '' \<or> startsWith t ''while ''"
  shows "\<not> startsWith t ''print(''" "\<not> startsWith t ''def ''" "\<not> startsWith t ''for ''"
    "t \<noteq> []" "\<not> startsWith t ''#''"
  using assms by (auto simp: startsWith_iff)

lemma while_not_if: "startsWith t ''while '' \<Longrightarrow> \<not> startsWith t ''if ''"
  by (auto simp: startsWith_iff)

lemma processLine_guard:
  assumes "reachesGuard l"
  shows "processLine h l vars out lines = ([guardStepOf h l vars out], vars, out)"
proof -
  from assms have g: "startsWith (trimmed l) ''if '' \<or> startsWith (trimmed l) ''while ''"
    by (simp add: reachesGuard_def)
  note n = guard_not_others[OF g]
  from assms n show ?thesis
    by (auto simp: reachesGuard_def processLine_def processLine_try_def guardStepOf_def
        ifStatement_def whileStatement_def while_not_if)
qed

lemma processLine_blank: "isBlankOrComment l \<Longrightarrow> processLine h l vars out lines = ([], vars, out)"
  by (simp add: processLine_def)

lemma topLevel_plain:
  "plainLine (lines ! i) \<Longrightarrow> topLevel h lines i vars out = Inr (processLine h (lines ! i) vars out lines, Suc i)"
  by (auto simp: plainLine_def topLevel_def Let_def split: option.splits)

lemma mainLoop_plain_line:
  assumes "i < length lines" "plainLine (lines ! i)"
  shows "mainLoop h lines i vars out =
     (case processLine h (lines ! i) vars out lines of
        (steps, vars1, out1) \<Rightarrow>
          (case mainLoop h lines (Suc i) vars1 out1 of
             Inl e \<Rightarrow> Inl e
           | Inr rest \<Rightarrow> Inr (steps @ rest)))"
proof (cases "isBlankOrComment (lines ! i)")
  case True
  with assms show ?thesis
    by (subst mainLoop.simps) (simp add: processLine_blank split: sum.splits)
next
  case False
  with assms show ?thesis
    by (subst mainLoop.simps) (simp add: topLevel_plain split: prod.splits sum.splits)
qed

lemma mainLoop_plain_prefix:
  "i + k \<le> length lines \<Longrightarrow> list_all plainLine (take k (drop i lines)) \<Longrightarrow>
   mainLoop h lines i vars out =
     (case bodyLines h lines (take k (drop i lines)) vars out of
        (steps, vars1, out1) \<Rightarrow>
          (case mainLoop h lines (i + k) vars1 out1 of
             Inl e \<Rightarrow> Inl e
           | Inr rest \<Rightarrow> Inr (steps @ rest)))"
proof (induction k arbitrary: i vars out)
  case 0
  then show ?case by (simp split: sum.splits)
next
  case (Suc k)
  then have i: "i < length lines" by simp
  then have t: "take (Suc k) (drop i lines) = lines ! i # take k (drop (Suc i) lines)"
    by (simp add: take_Suc_conv_app_nth Cons_nth_drop_Suc[symmetric])
  from Suc.prems t have p: "plainLine (lines ! i)" and r: "list_all plainLine (take k (drop (Suc i) lines))"
    by simp_all
  from Suc.prems have le: "Suc i + k \<le> length lines" by simp
  show ?case
    by (simp add: mainLoop_plain_line[OF i p] t Suc.IH[OF le r] split: prod.splits sum.splits)
qed

text \<open>
  Claim C5, amended: a header at the top level that reaches the \<^verbatim>\<open>if\<close> or the
  \<^verbatim>\<open>while\<close> case of \<^verbatim>\<open>processLine\<close> gives exactly one step, an \<^verbatim>\<open>if_statement\<close> or
  a \<^verbatim>\<open>while_loop_start\<close> step that carries the truth value of the guard, and changes
  neither the variables nor the output. When no line of the block under it is a
  \<^verbatim>\<open>for\<close> or \<^verbatim>\<open>def\<close> header of its own, the lines of the block are then processed
  once each, in their order, whatever the guard was, and the trace goes on behind the
  block: the guard skips nothing and a \<^verbatim>\<open>while\<close> repeats nothing.
\<close>

theorem guard_header_never_branches:
  assumes "i < length lines"
      and "reachesGuard (lines ! i)"
      and "list_all plainLine (blockOf lines i (indent (lines ! i)))"
  shows "mainLoop h lines i vars out =
     (case bodyLines h lines (blockOf lines i (indent (lines ! i))) vars out of
        (bodySteps, vars1, out1) \<Rightarrow>
          (case mainLoop h lines (Suc i + length (blockOf lines i (indent (lines ! i)))) vars1 out1 of
             Inl e \<Rightarrow> Inl e
           | Inr rest \<Rightarrow> Inr (guardStepOf h (lines ! i) vars out # bodySteps @ rest)))"
proof -
  let ?b = "blockOf lines i (indent (lines ! i))"
  from assms(2) have g: "startsWith (trimmed (lines ! i)) ''if '' \<or> startsWith (trimmed (lines ! i)) ''while ''"
    by (simp add: reachesGuard_def)
  have p: "plainLine (lines ! i)"
    using guard_not_others[OF g] by (simp add: plainLine_def)
  have b: "?b = take (length ?b) (drop (Suc i) lines)"
    unfolding blockOf_def by (simp add: takeWhile_eq_take[symmetric])
  have le: "Suc i + length ?b \<le> length lines"
    using assms(1) unfolding blockOf_def
    by (metis Suc_leI add.commute le_diff_conv2 length_drop length_takeWhile_le)
  have pl: "list_all plainLine (take (length ?b) (drop (Suc i) lines))"
    using assms(3) b by simp
  show ?thesis
    apply (subst mainLoop_plain_line[OF assms(1) p])
    apply (subst mainLoop_plain_prefix[OF le pl])
    apply (subst b[symmetric])
    apply (simp add: processLine_guard[OF assms(2)] split: prod.splits sum.splits)
    done
qed

text \<open>The witness: the guard is false and the body is printed all the same.\<close>

theorem guard_header_never_branches_witness:
  "reachesGuard (lineOf 0 ''if 0:'')
   \<and> parseCode js_host (''if 0:'' @ nl @ ''    print(1)'') =
     Inr [\<lparr>line = 0, action = IfStatement,
            info = [(''condition'', VStr ''0''), (''conditionResult'', VBool False)],
            variables = [], outputLines = []\<rparr>,
          \<lparr>line = 1, action = Print,
            info = [(''value'', VList [VNum 1]), (''outputText'', VStr ''1'')],
            variables = [], outputLines = [''1'']\<rparr>]"
proof -
  let ?lines = "sourceLines (''if 0:'' @ nl @ ''    print(1)'')"
  have h1: "0 < length ?lines" by code_simp
  have l0: "?lines ! 0 = lineOf 0 ''if 0:''" by code_simp
  have g: "reachesGuard (lineOf 0 ''if 0:'')" by code_simp
  have h2: "reachesGuard (?lines ! 0)" using g l0 by simp
  have h3: "list_all plainLine (blockOf ?lines 0 (indent (?lines ! 0)))" by code_simp
  have r: "(case bodyLines js_host ?lines (blockOf ?lines 0 (indent (?lines ! 0))) [] [] of
        (bodySteps, vars1, out1) \<Rightarrow>
          (case mainLoop js_host ?lines (Suc 0 + length (blockOf ?lines 0 (indent (?lines ! 0)))) vars1 out1 of
             Inl e \<Rightarrow> Inl e
           | Inr rest \<Rightarrow> Inr (guardStepOf js_host (?lines ! 0) [] [] # bodySteps @ rest))) =
     Inr [\<lparr>line = 0, action = IfStatement,
            info = [(''condition'', VStr ''0''), (''conditionResult'', VBool False)],
            variables = [], outputLines = []\<rparr>,
          \<lparr>line = 1, action = Print,
            info = [(''value'', VList [VNum 1]), (''outputText'', VStr ''1'')],
            variables = [], outputLines = [''1'']\<rparr>]"
    by code_simp
  from guard_header_never_branches[OF h1 h2 h3, of js_host "[]" "[]"] r g show ?thesis
    by (simp add: parseCode_def)
qed

subsection \<open>Functions\<close>

lemma body_line_throws:
  assumes "env_get vars f = VFun n ps (bodyLine # rest) cl"
      and "\<not> startsWith (trimmed bodyLine) ''return ''"
  shows "handleFunctionCall h f args vars out = Inl (inFunction f (Error ''lines is not defined''))"
  using assms by (simp add: handleFunctionCall_def)

text \<open>
  Claim C6: a call builds its scope from the closure and binds parameter \<open>i\<close> to
  argument \<open>i\<close>; a line \<^verbatim>\<open>return <expr>\<close> ends the call with the value of the
  expression in that scope; without a \<^verbatim>\<open>return\<close> the value is null; the output of the
  body is appended to the output of the caller.

  The scope and the \<^verbatim>\<open>return\<close> are as claimed (\<open>handleFunctionCall_def\<close>), and an
  empty body gives null. But a body line that is not a \<^verbatim>\<open>return\<close> cannot be run: line
  202 passes the name \<^verbatim>\<open>lines\<close>, which \<^verbatim>\<open>handleFunctionCall\<close> does not have, so the
  call throws where the claim says it prints and returns null. The example program of
  the component itself (function \<^verbatim>\<open>greet\<close>, lines 1340 to 1342) has such a body.
\<close>

theorem function_body_line_throws:
  "parseCode js_host (''def f():'' @ nl @ ''    print(1)'' @ nl @ ''f()'') =
     Inr [\<lparr>line = 0, action = FunctionDefinition,
            info = [(''functionName'', VStr ''f''), (''params'', VList []), (''bodyLines'', VNum 1)],
            variables = [(''f'', VFun ''f'' [] [lineOf 1 ''    print(1)''] [])], outputLines = []\<rparr>,
          \<lparr>line = 2, action = ErrorStep,
            info = [(''error'', VStr (''Function call error: Error in function '' @ sq @ ''f'' @ sq
                      @ '': lines is not defined''))],
            variables = [(''f'', VFun ''f'' [] [lineOf 1 ''    print(1)''] [])], outputLines = []\<rparr>]"
  by code_simp



subsection \<open>Dictionary methods (second version)\<close>

text \<open>
  Claim C9: on a dictionary, \<^verbatim>\<open>get\<close> of an absent key gives \<^verbatim>\<open>None\<close> or the default,
  and \<^verbatim>\<open>pop\<close> of an absent key fails with a \<^verbatim>\<open>KeyError\<close> exactly when no default is
  given and returns the default otherwise; each records a \<^verbatim>\<open>dict_operation\<close> step.

  \<^verbatim>\<open>get\<close> is as claimed (\<open>dictMethod_def\<close>). The code for \<^verbatim>\<open>pop\<close> (lines 2345 to
  2358) does what the claim says, but is never reached: a line with \<^verbatim>\<open>.pop(\<close> passes
  the test for list methods of line 2235 first, and that case throws for every value
  that is not an array. With a default given, the step is an \<^verbatim>\<open>error\<close> step, not a
  \<^verbatim>\<open>dict_operation\<close> step with the default.
\<close>

theorem dict_pop_never_reached:
  "parseCode2 js_host (''d = {'' @ sq @ ''a'' @ sq @ '': 1}'' @ nl @ ''d.pop('' @ sq @ ''b'' @ sq @ '', 0)'') =
     Inr [\<lparr>line = 0, action = Assign,
            info = [(''variable'', VStr ''d''), (''value'', VDict [(''a'', VNum 1)]), (''oldValue'', VUndef),
                    (''expression'', VStr (''{'' @ sq @ ''a'' @ sq @ '': 1}''))],
            variables = [(''d'', VDict [(''a'', VNum 1)])], outputLines = []\<rparr>,
          \<lparr>line = 1, action = ErrorStep,
            info = [(''error'', VStr (sq @ ''object'' @ sq @ '' object has no attribute '' @ sq @ ''pop'' @ sq))],
            variables = [(''d'', VDict [(''a'', VNum 1)])], outputLines = []\<rparr>]"
  by code_simp

subsection \<open>Snapshots\<close>




lemma closed_part_iff:
  "closed_part lo hi st \<longleftrightarrow>
     hi \<le> length st \<and> (\<forall>a. lo \<le> a \<and> a < hi \<longrightarrow> (\<forall>h \<in> set (cell_refs (st ! a)). in_part lo hi h))"
  by (auto simp: closed_part_def list_all_iff)




lemma closed_part_empty: "lo \<le> length st \<Longrightarrow> closed_part lo lo st"
  by (auto simp: closed_part_iff)












end
